theory Spec2Isabelle
  imports Main "HOL-Library.AList"
begin

section \<open>JavaScript strings and optional values\<close>

text \<open>
  The sources are TypeScript. A JavaScript string is a sequence of UTF-16 code units, and
  the code compares, trims and searches strings that hold Cyrillic letters and box-drawing
  glyphs, so a string is modelled as the list of its code units (natural numbers) rather
  than as a list of 8-bit characters. ASCII literals are written with \<open>ascii\<close>.
\<close>

type_synonym jsstring = "nat list"

definition ascii :: "string \<Rightarrow> jsstring" where
  "ascii s = map of_char s"

text \<open>
  ECMAScript \<open>WhiteSpace\<close> and \<open>LineTerminator\<close> code units: the characters removed by
  \<open>String.prototype.trim\<close> and matched by the regular expression class \<open>\s\<close>.
\<close>

definition isWhiteSpace :: "nat \<Rightarrow> bool" where
  "isWhiteSpace c =
     (c = 9 \<or> c = 10 \<or> c = 11 \<or> c = 12 \<or> c = 13 \<or> c = 32 \<or> c = 160 \<or> c = 5760 \<or>
      (8192 \<le> c \<and> c \<le> 8202) \<or> c = 8232 \<or> c = 8233 \<or> c = 8239 \<or> c = 8287 \<or>
      c = 12288 \<or> c = 65279)"

definition trimStart :: "jsstring \<Rightarrow> jsstring" where
  "trimStart s = dropWhile isWhiteSpace s"

definition trimEnd :: "jsstring \<Rightarrow> jsstring" where
  "trimEnd s = rev (dropWhile isWhiteSpace (rev s))"

definition trim :: "jsstring \<Rightarrow> jsstring" where
  "trim s = trimEnd (trimStart s)"

text \<open>
  An optional string property (\<open>field?: string\<close>) is \<open>jsstring option\<close>, \<open>None\<close> being
  \<open>undefined\<close>. \<open>truthy\<close> is JavaScript's ToBoolean on such a value: \<open>undefined\<close> and
  the empty string are falsy. \<open>optTrim\<close> is \<open>x?.trim()\<close>, and \<open>orElse\<close> is \<open>a || b\<close>.
\<close>

fun truthy :: "jsstring option \<Rightarrow> bool" where
  "truthy None = False"
| "truthy (Some s) = (s \<noteq> [])"

fun optTrim :: "jsstring option \<Rightarrow> jsstring option" where
  "optTrim None = None"
| "optTrim (Some s) = Some (trim s)"

definition orElse :: "jsstring option \<Rightarrow> jsstring option \<Rightarrow> jsstring option" where
  "orElse a b = (if truthy a then a else b)"

section \<open>Follow-up queue: data model\<close>

text \<open>
  \<open>types.ts\<close> and \<open>state.ts\<close> of the queue are not part of the sources at hand; the
  records below carry the fields that \<open>enqueue.ts\<close> and the restart handoff read and write.
  \<open>originatingThreadId\<close> is \<open>string | number\<close>.
\<close>

datatype ThreadId = ThreadStr jsstring | ThreadNum int

record RunContext =
  workspaceDir :: "jsstring option"
  sessionKey :: "jsstring option"

record FollowupRun =
  prompt :: jsstring
  messageId :: "jsstring option"
  summaryLine :: "jsstring option"
  enqueuedAt :: int
  originatingChannel :: "jsstring option"
  originatingTo :: "jsstring option"
  originatingAccountId :: "jsstring option"
  originatingThreadId :: "ThreadId option"
  run :: "RunContext option"

record FollowupQueue =
  items :: "FollowupRun list"
  draining :: bool
  lastEnqueuedAt :: int
  lastRun :: "RunContext option"
  mode :: jsstring

record QueueSettings =
  settingsMode :: jsstring

datatype QueueDedupeMode = DedupeMessageId | DedupePrompt | DedupeNone

text \<open>
  \<open>FOLLOWUP_QUEUES\<close> is a JavaScript \<open>Map\<close>, which iterates in insertion order: an
  association list with \<open>map_of\<close> for lookup and \<open>AList.update\<close> for \<open>set\<close>.
\<close>

type_synonym QueueStore = "(jsstring \<times> FollowupQueue) list"

text \<open>
  The clock readings of one call: \<open>Date.now()\<close> in milliseconds and
  \<open>new Date().toISOString()\<close>.
\<close>

record Clock =
  now :: int
  isoNow :: jsstring

text \<open>
  The fire-and-forget \<open>appendFile(path.join(dir, "OPENCLAW_INBOX.md"), entry, "utf8")\<close>,
  recorded as an effect.
\<close>

datatype InboxWrite = AppendInbox (inboxDir: jsstring) (inboxEntry: jsstring)

text \<open>
  \<open>applyQueueDropPolicy\<close> lives in \<open>utils/queue-helpers.ts\<close>, which is not among the sources.
  It receives the queue and the summarising function, may change the queue, and returns
  whether the new item is to be appended. It is a parameter of the model.
\<close>

type_synonym DropPolicy = "FollowupQueue \<Rightarrow> (FollowupRun \<Rightarrow> jsstring) \<Rightarrow> bool \<times> FollowupQueue"

section \<open>Follow-up queue: deduplication and enqueue\<close>

definition hasSameRouting :: "FollowupRun \<Rightarrow> FollowupRun \<Rightarrow> bool" where
  "hasSameRouting r item =
     (originatingChannel item = originatingChannel r \<and>
      originatingTo item = originatingTo r \<and>
      originatingAccountId item = originatingAccountId r \<and>
      originatingThreadId item = originatingThreadId r)"

definition isRunAlreadyQueued :: "FollowupRun \<Rightarrow> FollowupRun list \<Rightarrow> bool \<Rightarrow> bool" where
  "isRunAlreadyQueued r its allowPromptFallback =
     (let mid = optTrim (messageId r) in
      if truthy mid then
        list_ex (\<lambda>item. optTrim (messageId item) = mid \<and> hasSameRouting r item) its
      else if \<not> allowPromptFallback then False
      else list_ex (\<lambda>item. prompt item = prompt r \<and> hasSameRouting r item) its)"

text \<open>
  Modelled from the spec: \<open>shouldSkipQueueItem\<close> of \<open>utils/queue-helpers.ts\<close> is not among the
  sources. Sections 4.1 and 4.3: with dedup disabled (mode \<open>none\<close>, no \<open>dedupe\<close> callback)
  every candidate is admitted; otherwise the candidate is rejected exactly when the
  deduplicator finds it already represented in the queue's items.
\<close>

definition shouldSkipQueueItem ::
  "FollowupRun \<Rightarrow> FollowupRun list \<Rightarrow> (FollowupRun \<Rightarrow> FollowupRun list \<Rightarrow> bool) option \<Rightarrow> bool" where
  "shouldSkipQueueItem item its dedupe =
     (case dedupe of None \<Rightarrow> False | Some d \<Rightarrow> d item its)"

text \<open>
  Modelled from the spec: the creation of a queue is in \<open>state.ts\<close>, which is not among the
  sources. Section 3: a queue is created lazily on first enqueue; it has no items, is not
  draining, has no \<open>lastRun\<close>, and takes its mode from the settings.
\<close>

definition createFollowupQueue :: "QueueSettings \<Rightarrow> FollowupQueue" where
  "createFollowupQueue settings =
     \<lparr>items = [], draining = False, lastEnqueuedAt = 0, lastRun = None,
      mode = settingsMode settings\<rparr>"

text \<open>
  Modelled from the spec: \<open>getFollowupQueue\<close> is in \<open>state.ts\<close>, which is not among the
  sources. Section 4.3, step 1: resolve or create the FollowupQueue for \<open>key\<close>. It answers
  the queue and the store, which holds the queue under \<open>key\<close> from then on.
\<close>

definition getFollowupQueue :: "jsstring \<Rightarrow> QueueSettings \<Rightarrow> QueueStore \<Rightarrow> FollowupQueue \<times> QueueStore" where
  "getFollowupQueue key settings store =
     (case map_of store key of
        Some q \<Rightarrow> (q, store)
      | None \<Rightarrow> (createFollowupQueue settings,
                 AList.update key (createFollowupQueue settings) store))"

text \<open>
  Modelled from the spec: \<open>getExistingFollowupQueue\<close> is in \<open>state.ts\<close>, which is not among
  the sources. Section 4.3: a read-only probe, which creates no queue.
\<close>

definition getExistingFollowupQueue :: "jsstring \<Rightarrow> QueueStore \<Rightarrow> FollowupQueue option" where
  "getExistingFollowupQueue key store = map_of store key"

definition summarize :: "FollowupRun \<Rightarrow> jsstring" where
  "summarize item =
     (case optTrim (summaryLine item) of
        Some s \<Rightarrow> if s \<noteq> [] then s else trim (prompt item)
      | None \<Rightarrow> trim (prompt item))"

definition runWorkspaceDir :: "RunContext option \<Rightarrow> jsstring option" where
  "runWorkspaceDir rc = (case rc of None \<Rightarrow> None | Some c \<Rightarrow> workspaceDir c)"

definition inboxEntryText :: "jsstring \<Rightarrow> jsstring \<Rightarrow> jsstring" where
  "inboxEntryText timestamp p =
     ascii [CHR 0x0A, CHR ''-'', CHR ''-'', CHR ''-'', CHR 0x0A, CHR ''[''] @ timestamp @
     ascii [CHR '']'', CHR 0x0A] @ trim p @ ascii [CHR 0x0A]"

text \<open>The local constant \<open>dedupe\<close> of \<open>enqueueFollowupRun\<close>.\<close>

definition dedupeCallback ::
  "QueueDedupeMode \<Rightarrow> (FollowupRun \<Rightarrow> FollowupRun list \<Rightarrow> bool) option" where
  "dedupeCallback dedupeMode =
     (if dedupeMode = DedupeNone then None
      else Some (\<lambda>item its. isRunAlreadyQueued item its (dedupeMode = DedupePrompt)))"

text \<open>
  \<open>enqueueFollowupRun\<close> returns its boolean, the queue store after the call (the queue
  object is mutated in place in the source) and the inbox writes it started.
\<close>

definition enqueueFollowupRun ::
  "DropPolicy \<Rightarrow> Clock \<Rightarrow> jsstring \<Rightarrow> FollowupRun \<Rightarrow> QueueSettings \<Rightarrow> QueueDedupeMode \<Rightarrow>
   QueueStore \<Rightarrow> bool \<times> QueueStore \<times> InboxWrite list" where
  "enqueueFollowupRun applyQueueDropPolicy clk key r settings dedupeMode store =
     (let (queue, store0) = getFollowupQueue key settings store;
          dedupe = dedupeCallback dedupeMode
      in if shouldSkipQueueItem r (items queue) dedupe then (False, store0, [])
         else
           let queue1 = queue\<lparr>lastEnqueuedAt := now clk, lastRun := run r\<rparr>;
               (shouldEnqueue, queue2) = applyQueueDropPolicy queue1 summarize
           in if \<not> shouldEnqueue then (False, AList.update key queue2 store0, [])
              else
                let queue3 = queue2\<lparr>items := items queue2 @ [r]\<rparr>;
                    writes =
                      (if draining queue3 then
                         (case orElse (runWorkspaceDir (run r)) (runWorkspaceDir (lastRun queue3)) of
                            Some wsDir \<Rightarrow>
                              if wsDir \<noteq> []
                              then [AppendInbox wsDir (inboxEntryText (isoNow clk) (prompt r))]
                              else []
                          | None \<Rightarrow> [])
                       else [])
                in (True, AList.update key queue3 store0, writes))"

definition getFollowupQueueDepth :: "jsstring \<Rightarrow> QueueStore \<Rightarrow> nat" where
  "getFollowupQueueDepth key store =
     (case getExistingFollowupQueue key store of None \<Rightarrow> 0 | Some q \<Rightarrow> length (items q))"

section \<open>Restart handoff\<close>

text \<open>
  \<open>HandoffItem\<close> is the serialisable projection of a \<open>FollowupRun\<close>. Its fields carry the
  prefix \<open>h_\<close> (and those of \<open>HandoffQueue\<close> the prefix \<open>hq_\<close>) because the source reuses
  the field names of \<open>FollowupRun\<close> and \<open>FollowupQueue\<close>.
\<close>

record HandoffItem =
  h_prompt :: jsstring
  h_messageId :: "jsstring option"
  h_summaryLine :: "jsstring option"
  h_enqueuedAt :: int
  h_originatingChannel :: "jsstring option"
  h_originatingTo :: "jsstring option"
  h_originatingAccountId :: "jsstring option"
  h_originatingThreadId :: "ThreadId option"
  h_sessionKey :: "jsstring option"

record HandoffQueue =
  hq_key :: jsstring
  hq_mode :: jsstring
  hq_items :: "HandoffItem list"

record HandoffData =
  savedAt :: int
  version :: nat
  queues :: "HandoffQueue list"

definition HANDOFF_MAX_AGE_MS :: int where
  "HANDOFF_MAX_AGE_MS = 5 * 60 * 1000"

text \<open>
  What the file \<open>restart-handoff.json\<close> holds: the JSON text of a \<open>HandoffData\<close>, which
  \<open>JSON.stringify\<close> writes and \<open>JSON.parse\<close> reads back (the source casts the parsed value
  to \<open>HandoffData\<close>), or text on which \<open>JSON.parse\<close> or the access to \<open>savedAt\<close> throws.
\<close>

datatype HandoffContent = Snapshot HandoffData | Malformed

text \<open>
  The state of that file: its content (\<open>None\<close> when the file does not exist) and whether
  \<open>readFileSync\<close>, \<open>unlinkSync\<close> and \<open>mkdirSync\<close>/\<open>writeFileSync\<close> on it throw. The source
  catches each of these exceptions.
\<close>

record HandoffFs =
  handoffFile :: "HandoffContent option"
  readFails :: bool
  unlinkFails :: bool
  writeFails :: bool

definition toHandoffItem :: "FollowupRun \<Rightarrow> HandoffItem" where
  "toHandoffItem item =
     \<lparr>h_prompt = prompt item,
      h_messageId = messageId item,
      h_summaryLine = summaryLine item,
      h_enqueuedAt = enqueuedAt item,
      h_originatingChannel = originatingChannel item,
      h_originatingTo = originatingTo item,
      h_originatingAccountId = originatingAccountId item,
      h_originatingThreadId = originatingThreadId item,
      h_sessionKey = (case run item of None \<Rightarrow> None | Some c \<Rightarrow> sessionKey c)\<rparr>"

text \<open>The \<open>for\<close> loop of \<open>saveRestartHandoff\<close> over the entries of \<open>FOLLOWUP_QUEUES\<close>.\<close>

fun collectHandoffQueues :: "QueueStore \<Rightarrow> HandoffQueue list" where
  "collectHandoffQueues [] = []"
| "collectHandoffQueues ((key, queue) # rest) =
     (if length (items queue) = 0 then collectHandoffQueues rest
      else
        let serializableItems =
              map toHandoffItem (filter (\<lambda>item. truthy (originatingTo item)) (items queue))
        in if length serializableItems = 0 then collectHandoffQueues rest
           else \<lparr>hq_key = key, hq_mode = mode queue, hq_items = serializableItems\<rparr>
                  # collectHandoffQueues rest)"

definition saveRestartHandoff :: "Clock \<Rightarrow> QueueStore \<Rightarrow> HandoffFs \<Rightarrow> HandoffFs" where
  "saveRestartHandoff clk store fs =
     (let qs = collectHandoffQueues store
      in if length qs = 0 then fs
         else
           let data = \<lparr>savedAt = now clk, version = 1, queues = qs\<rparr>
           in if writeFails fs then fs
              else fs\<lparr>handoffFile := Some (Snapshot data)\<rparr>)"

definition loadAndClearRestartHandoff :: "Clock \<Rightarrow> HandoffFs \<Rightarrow> HandoffData option \<times> HandoffFs" where
  "loadAndClearRestartHandoff clk fs =
     (case handoffFile fs of
        None \<Rightarrow> (None, fs)
      | Some raw \<Rightarrow>
          if readFails fs then (None, fs)
          else
            let fs' = (if unlinkFails fs then fs else fs\<lparr>handoffFile := None\<rparr>)
            in (case raw of
                  Malformed \<Rightarrow> (None, fs')
                | Snapshot data \<Rightarrow>
                    (if now clk - savedAt data > HANDOFF_MAX_AGE_MS then (None, fs')
                     else (Some data, fs'))))"

text \<open>
  In the words of the specification: an item is persisted when its \<open>originatingTo\<close> is a
  non-empty value, and a queue contributes when it holds such an item.
\<close>

definition carriesOriginatingTo :: "FollowupRun \<Rightarrow> bool" where
  "carriesOriginatingTo item = (case originatingTo item of None \<Rightarrow> False | Some t \<Rightarrow> t \<noteq> [])"

definition contributes :: "jsstring \<times> FollowupQueue \<Rightarrow> bool" where
  "contributes entry = list_ex carriesOriginatingTo (items (snd entry))"

section \<open>Interactive session router\<close>

datatype SessionMode = Tmux | Resume

text \<open>The field \<open>mode\<close> of \<open>SessionEntry\<close> is \<open>sessionMode\<close> here: \<open>mode\<close> is the queue's.\<close>

record SessionEntry =
  sessionMode :: SessionMode
  tmuxSession :: "jsstring option"
  resumeId :: "jsstring option"
  cwd :: "jsstring option"
  label :: "jsstring option"
  switchedAt :: jsstring

text \<open>
  The store is a plain JavaScript object. \<open>StateStore\<close> holds its own properties, which are
  what \<open>JSON.parse\<close> creates and \<open>JSON.stringify\<close> writes.
\<close>

type_synonym StateStore = "jsstring \<rightharpoonup> SessionEntry"

text \<open>
  Reading \<open>store[chatId]\<close> looks past the own properties into \<open>Object.prototype\<close>: for the
  twelve property names below it yields a member of the prototype (a function, or the
  prototype itself for \<open>__proto__\<close>) when the store has no own property of that name. Such a
  value is neither \<open>undefined\<close> nor \<open>null\<close>, it is truthy, and it has none of the fields of a
  \<open>SessionEntry\<close>.
\<close>

definition OBJECT_PROTOTYPE_KEYS :: "jsstring list" where
  "OBJECT_PROTOTYPE_KEYS =
     [ascii ''constructor'', ascii ''__defineGetter__'', ascii ''__defineSetter__'',
      ascii ''hasOwnProperty'', ascii ''__lookupGetter__'', ascii ''__lookupSetter__'',
      ascii ''isPrototypeOf'', ascii ''propertyIsEnumerable'', ascii ''toString'',
      ascii ''valueOf'', ascii ''__proto__'', ascii ''toLocaleString'']"

datatype SessionValue = Stored SessionEntry | Inherited

definition storeGet :: "StateStore \<Rightarrow> jsstring \<Rightarrow> SessionValue option" where
  "storeGet store chatId =
     (case store chatId of
        Some entry \<Rightarrow> Some (Stored entry)
      | None \<Rightarrow> if chatId \<in> set OBJECT_PROTOTYPE_KEYS then Some Inherited else None)"

text \<open>The fields that \<open>tryProxyMessage\<close> reads from what \<open>getSession\<close> gave it.\<close>

definition valueMode :: "SessionValue \<Rightarrow> SessionMode option" where
  "valueMode v = (case v of Stored e \<Rightarrow> Some (sessionMode e) | Inherited \<Rightarrow> None)"

definition valueTmuxSession :: "SessionValue \<Rightarrow> jsstring option" where
  "valueTmuxSession v = (case v of Stored e \<Rightarrow> tmuxSession e | Inherited \<Rightarrow> None)"

definition valueResumeId :: "SessionValue \<Rightarrow> jsstring option" where
  "valueResumeId v = (case v of Stored e \<Rightarrow> resumeId e | Inherited \<Rightarrow> None)"

definition valueCwd :: "SessionValue \<Rightarrow> jsstring option" where
  "valueCwd v = (case v of Stored e \<Rightarrow> cwd e | Inherited \<Rightarrow> None)"

definition valueLabel :: "SessionValue \<Rightarrow> jsstring option" where
  "valueLabel v = (case v of Stored e \<Rightarrow> label e | Inherited \<Rightarrow> None)"

text \<open>
  The file \<open>session-state.json\<close>: the store it holds (\<open>None\<close> when reading or parsing it
  throws, and \<open>loadState\<close> then answers the empty store), and whether \<open>mkdirSync\<close> or
  \<open>writeFileSync\<close> on it throw. \<open>saveState\<close> has no handler around them: the exception
  leaves \<open>saveState\<close>, \<open>clearSession\<close> and \<open>tryProxyMessage\<close>, and the file is as it was.
\<close>

record SessionFile =
  sessionStore :: "StateStore option"
  sessionWriteFails :: bool

datatype ProxyError = WriteFailed

definition loadState :: "SessionFile \<Rightarrow> StateStore" where
  "loadState f = (case sessionStore f of None \<Rightarrow> Map.empty | Some store \<Rightarrow> store)"

definition saveState :: "StateStore \<Rightarrow> SessionFile \<Rightarrow> ProxyError + SessionFile" where
  "saveState store f =
     (if sessionWriteFails f then Inl WriteFailed else Inr (f\<lparr>sessionStore := Some store\<rparr>))"

definition getSession :: "jsstring \<Rightarrow> SessionFile \<Rightarrow> SessionValue option" where
  "getSession chatId f = storeGet (loadState f) chatId"

text \<open>
  In \<open>setTmuxSession\<close> and \<open>setResumeSession\<close> the assignment \<open>store[chatId] = entry\<close> makes an
  own property, except for \<open>__proto__\<close>, where it replaces the prototype of the store and
  nothing of it is written.
\<close>

definition storeSet :: "StateStore \<Rightarrow> jsstring \<Rightarrow> SessionEntry \<Rightarrow> StateStore" where
  "storeSet store chatId entry =
     (if chatId = ascii ''__proto__'' then store else store(chatId \<mapsto> entry))"

definition setTmuxSession ::
  "jsstring \<Rightarrow> jsstring \<Rightarrow> jsstring \<Rightarrow> jsstring \<Rightarrow> SessionFile \<Rightarrow> ProxyError + SessionFile" where
  "setTmuxSession isoTime chatId tmuxName lbl f =
     saveState (storeSet (loadState f) chatId
       \<lparr>sessionMode = Tmux, tmuxSession = Some tmuxName, resumeId = None, cwd = None,
        label = Some lbl, switchedAt = isoTime\<rparr>) f"

definition setResumeSession ::
  "jsstring \<Rightarrow> jsstring \<Rightarrow> jsstring \<Rightarrow> jsstring \<Rightarrow> jsstring \<Rightarrow> SessionFile \<Rightarrow>
   ProxyError + SessionFile" where
  "setResumeSession isoTime chatId rid dir lbl f =
     saveState (storeSet (loadState f) chatId
       \<lparr>sessionMode = Resume, tmuxSession = None, resumeId = Some rid, cwd = Some dir,
        label = Some lbl, switchedAt = isoTime\<rparr>) f"

text \<open>
  \<open>clearSession\<close>: the test \<open>!store[chatId]\<close> reads through the prototype as well;
  \<open>delete store[chatId]\<close> removes an own property and nothing else.
\<close>

definition clearSession :: "jsstring \<Rightarrow> SessionFile \<Rightarrow> ProxyError + (bool \<times> SessionFile)" where
  "clearSession chatId f =
     (let store = loadState f
      in case storeGet store chatId of
           None \<Rightarrow> Inr (False, f)
         | Some v \<Rightarrow>
             (case saveState (store(chatId := None)) f of
                Inl e \<Rightarrow> Inl e
              | Inr f' \<Rightarrow> Inr (True, f')))"

text \<open>
  The string literals of the proxy, as UTF-16 code units. In source order the back
  commands are: nazad, back, vernis', vyjti, vyjdi, otklyuchit', detach, exit session,
  vyhod iz sessii, vernut'sya (the Russian ones in Cyrillic); the screen commands are:
  ekran, screen, chto tam, pokazhi ekran, capture, status.
\<close>

definition BACK_COMMANDS :: "jsstring list" where
  "BACK_COMMANDS =
     [[1085, 1072, 1079, 1072, 1076],
      ascii ''back'',
      [1074, 1077, 1088, 1085, 1080, 1089, 1100],
      [1074, 1099, 1081, 1090, 1080],
      [1074, 1099, 1081, 1076, 1080],
      [1086, 1090, 1082, 1083, 1102, 1095, 1080, 1090, 1100],
      ascii ''detach'',
      ascii ''exit session'',
      [1074, 1099, 1093, 1086, 1076, 32, 1080, 1079, 32, 1089, 1077, 1089, 1089, 1080, 1080],
      [1074, 1077, 1088, 1085, 1091, 1090, 1100, 1089, 1103]]"

definition SCREEN_COMMANDS :: "jsstring list" where
  "SCREEN_COMMANDS =
     [[1101, 1082, 1088, 1072, 1085],
      ascii ''screen'',
      [1095, 1090, 1086, 32, 1090, 1072, 1084],
      [1087, 1086, 1082, 1072, 1078, 1080, 32, 1101, 1082, 1088, 1072, 1085],
      ascii ''capture'',
      [1089, 1090, 1072, 1090, 1091, 1089]]"

text \<open>
  \<open>TmuxRunResult\<close> and \<open>ResumeRunResult\<close> have the same three fields and share one record;
  the field \<open>output\<close> is \<open>outputText\<close> here.
\<close>

record RunResult =
  success :: bool
  outputText :: jsstring
  error :: "jsstring option"

record ProxyResult =
  handled :: bool
  response :: "jsstring option"

text \<open>
  What the proxy asks of its surroundings: \<open>String.prototype.toLowerCase\<close>, and the outcome of
  the calls that talk to tmux and to the resumed CLI (\<open>checkTmuxSession\<close>,
  \<open>captureTmuxScreen\<close>, \<open>sendToTmux\<close> with its polling, \<open>runWithResume\<close>), which depend on
  external processes and on time.
\<close>

record ProxyEnv =
  toLowerCase :: "jsstring \<Rightarrow> jsstring"
  checkTmuxSession :: "jsstring \<Rightarrow> bool"
  captureTmuxScreen :: "jsstring \<Rightarrow> jsstring"
  sendToTmux :: "jsstring \<Rightarrow> jsstring \<Rightarrow> RunResult"
  runWithResume :: "jsstring \<Rightarrow> jsstring \<Rightarrow> jsstring \<Rightarrow> RunResult"

definition isBackCommand :: "ProxyEnv \<Rightarrow> jsstring \<Rightarrow> bool" where
  "isBackCommand env text = (trim (toLowerCase env text) \<in> set BACK_COMMANDS)"

definition isScreenCommand :: "ProxyEnv \<Rightarrow> jsstring \<Rightarrow> bool" where
  "isScreenCommand env text = (trim (toLowerCase env text) \<in> set SCREEN_COMMANDS)"

text \<open>An optional string inside a template literal: \<open>undefined\<close> prints as such.\<close>

definition templ :: "jsstring option \<Rightarrow> jsstring" where
  "templ v = (case v of None \<Rightarrow> ascii ''undefined'' | Some s \<Rightarrow> s)"

definition formatLabel :: "jsstring option \<Rightarrow> jsstring \<Rightarrow> jsstring" where
  "formatLabel lbl sessionId =
     (let displayLabel = (case lbl of None \<Rightarrow> take 8 sessionId | Some l \<Rightarrow> l);
          truncated = (if length displayLabel > 40 then take 40 displayLabel @ [8230]
                       else displayLabel)
      in [91, 1057, 1077, 1089, 1089, 1080, 1103, 58, 32] @ truncated @ ascii '']'')"

definition backResponse :: "jsstring \<Rightarrow> jsstring" where
  "backResponse m =
     [1042, 1077, 1088, 1085, 1091, 1083, 1089, 1103, 32, 1074, 32, 1086, 1089, 1085, 1086,
      1074, 1085, 1091, 1102, 32, 1089, 1077, 1089, 1089, 1080, 1102, 46, 10, 95, 40, 1073,
      1099, 1083, 1072, 32, 1087, 1086, 1076, 1082, 1083, 1102, 1095, 1077, 1085, 1072, 58, 32]
     @ m @ ascii '')_''"

definition deadTmuxResponse :: "jsstring \<Rightarrow> jsstring" where
  "deadTmuxResponse tmuxName =
     [116, 109, 117, 120, 32, 1089, 1077, 1089, 1089, 1080, 1103, 32, 39] @ tmuxName @
     [39, 32, 1085, 1077, 32, 1085, 1072, 1081, 1076, 1077, 1085, 1072, 32, 8212, 32, 1074,
      1086, 1079, 1084, 1086, 1078, 1085, 1086, 32, 1073, 1099, 1083, 1072, 32, 1079, 1072,
      1082, 1088, 1099, 1090, 1072, 46, 10, 1042, 1077, 1088, 1085, 1091, 1083, 1089, 1103,
      32, 1074, 32, 1086, 1073, 1099, 1095, 1085, 1099, 1081, 32, 1088, 1077, 1078, 1080,
      1084, 46]"

definition screenResponse :: "jsstring \<Rightarrow> jsstring \<Rightarrow> jsstring" where
  "screenResponse lbl trimmed =
     lbl @ [32, 8212, 32, 1090, 1077, 1082, 1091, 1097, 1080, 1081, 32, 1101, 1082, 1088,
            1072, 1085, 58, 10, 96, 96, 96, 10] @ trimmed @ [10, 96, 96, 96]"

definition tmuxErrorResponse :: "jsstring \<Rightarrow> jsstring option \<Rightarrow> jsstring" where
  "tmuxErrorResponse lbl err =
     lbl @ [10, 10, 1054, 1096, 1080, 1073, 1082, 1072, 32, 116, 109, 117, 120, 58, 32] @ templ err"

definition resumeErrorResponse :: "jsstring \<Rightarrow> jsstring option \<Rightarrow> jsstring" where
  "resumeErrorResponse lbl err =
     lbl @ [10, 10, 1054, 1096, 1080, 1073, 1082, 1072, 32, 114, 101, 115, 117, 109, 101, 58, 32]
     @ templ err"

definition outputResponse :: "jsstring \<Rightarrow> jsstring \<Rightarrow> jsstring" where
  "outputResponse lbl out = lbl @ [10, 10] @ out"

text \<open>
  \<open>tryProxyMessage\<close> answers its result, or the exception that left \<open>clearSession\<close>, and the
  session file after the call.
\<close>

definition tryProxyMessage ::
  "ProxyEnv \<Rightarrow> jsstring \<Rightarrow> jsstring \<Rightarrow> SessionFile \<Rightarrow> (ProxyError + ProxyResult) \<times> SessionFile" where
  "tryProxyMessage env chatId messageText f =
     (case getSession chatId f of
        None \<Rightarrow> (Inr \<lparr>handled = False, response = None\<rparr>, f)
      | Some session \<Rightarrow>
          if isBackCommand env messageText then
            (case clearSession chatId f of
               Inl e \<Rightarrow> (Inl e, f)
             | Inr (cleared, f') \<Rightarrow>
                 (let m = (if valueMode session = Some Tmux
                           then ascii ''tmux:'' @ templ (valueTmuxSession session)
                           else ascii ''resume:'' @
                                  templ (map_option (take 8) (valueResumeId session)))
                  in (Inr \<lparr>handled = True, response = Some (backResponse m)\<rparr>, f')))
          else if valueMode session = Some Tmux \<and> truthy (valueTmuxSession session) then
            (let tmuxName = templ (valueTmuxSession session);
                 lbl = formatLabel (valueLabel session) tmuxName
             in if \<not> checkTmuxSession env tmuxName then
                  (case clearSession chatId f of
                     Inl e \<Rightarrow> (Inl e, f)
                   | Inr (cleared, f') \<Rightarrow>
                       (Inr \<lparr>handled = True, response = Some (deadTmuxResponse tmuxName)\<rparr>, f'))
                else if isScreenCommand env messageText then
                  (let screen = trim (captureTmuxScreen env tmuxName);
                       trimmed = drop (length screen - 3000) screen
                   in (Inr \<lparr>handled = True, response = Some (screenResponse lbl trimmed)\<rparr>, f))
                else
                  (let result = sendToTmux env tmuxName messageText
                   in if \<not> success result then
                        (Inr \<lparr>handled = True,
                              response = Some (tmuxErrorResponse lbl (error result))\<rparr>, f)
                      else
                        (Inr \<lparr>handled = True,
                              response = Some (outputResponse lbl (take 4000 (outputText result)))\<rparr>,
                         f)))
          else if valueMode session = Some Resume \<and> truthy (valueResumeId session) \<and>
                  truthy (valueCwd session) then
            (let rid = templ (valueResumeId session);
                 lbl = formatLabel (valueLabel session) rid;
                 result = runWithResume env rid (templ (valueCwd session)) messageText
             in if \<not> success result then
                  (Inr \<lparr>handled = True,
                        response = Some (resumeErrorResponse lbl (error result))\<rparr>, f)
                else
                  (Inr \<lparr>handled = True,
                        response = Some (outputResponse lbl (take 4000 (outputText result)))\<rparr>, f))
          else (Inr \<lparr>handled = False, response = None\<rparr>, f))"

section \<open>Extracting the reply from two pane captures\<close>

text \<open>\<open>s.split("\n")\<close>: never empty, the empty string gives one empty line.\<close>

fun splitLines :: "jsstring \<Rightarrow> jsstring list" where
  "splitLines [] = [[]]"
| "splitLines (c # cs) =
     (if c = 10 then [] # splitLines cs
      else (case splitLines cs of
              l # ls \<Rightarrow> (c # l) # ls
            | [] \<Rightarrow> [[c]]))"

text \<open>\<open>lines.join("\n")\<close>.\<close>

fun joinLines :: "jsstring list \<Rightarrow> jsstring" where
  "joinLines [] = []"
| "joinLines [l] = l"
| "joinLines (l # m # ls) = l @ [10] @ joinLines (m # ls)"

text \<open>
  The search loop for the point of divergence, started at index \<open>i\<close>: it runs while both
  line lists have a line at the index, and answers the first index where they differ.
\<close>

fun findDiverge :: "jsstring list \<Rightarrow> jsstring list \<Rightarrow> nat \<Rightarrow> nat option" where
  "findDiverge (b # bs) (a # as) i = (if b \<noteq> a then Some i else findDiverge bs as (Suc i))"
| "findDiverge _ _ i = None"

text \<open>\<open>Array.prototype.indexOf\<close>: the first index of an equal element, or -1.\<close>

fun indexOf :: "jsstring list \<Rightarrow> jsstring \<Rightarrow> int" where
  "indexOf [] x = - 1"
| "indexOf (y # ys) x =
     (if y = x then 0 else (let r = indexOf ys x in if r < 0 then - 1 else r + 1))"

definition startsWith :: "jsstring \<Rightarrow> jsstring \<Rightarrow> bool" where
  "startsWith s p = (take (length p) s = p)"

text \<open>\<open>s.includes(sub)\<close>.\<close>

fun includesStr :: "jsstring \<Rightarrow> jsstring \<Rightarrow> bool" where
  "includesStr [] sub = (sub = [])"
| "includesStr (c # cs) sub = (startsWith (c # cs) sub \<or> includesStr cs sub)"

text \<open>
  The prompt glyph U+276F, the status line of the CLI (two U+23F5, then
  \<open>" bypass permissions"\<close>), the decorative separator (fourteen U+2500) and the placeholder
  returned when nothing is left (in Russian: "(net otveta)", no reply).
\<close>

definition PROMPT_GLYPH :: jsstring where
  "PROMPT_GLYPH = [10095]"

definition BYPASS_LINE :: jsstring where
  "BYPASS_LINE = [9205, 9205] @ ascii '' bypass permissions''"

definition SEPARATOR_LINE :: jsstring where
  "SEPARATOR_LINE =
     [9472, 9472, 9472, 9472, 9472, 9472, 9472, 9472, 9472, 9472, 9472, 9472, 9472, 9472]"

definition NO_RESPONSE :: jsstring where
  "NO_RESPONSE = [40, 1085, 1077, 1090, 32, 1086, 1090, 1074, 1077, 1090, 1072, 41]"

definition keepLine :: "jsstring list \<Rightarrow> jsstring \<Rightarrow> bool" where
  "keepLine newLines l =
     ((\<not> startsWith (trim l) PROMPT_GLYPH \<and>
       \<not> includesStr l BYPASS_LINE \<and>
       \<not> includesStr l SEPARATOR_LINE \<and>
       \<not> list_all isWhiteSpace l) \<or>
      (indexOf newLines l > 0 \<and> indexOf newLines l < int (length newLines) - 3))"

definition extractNewContent :: "jsstring \<Rightarrow> jsstring \<Rightarrow> jsstring" where
  "extractNewContent before after =
     (let beforeLines = splitLines before;
          afterLines = splitLines after;
          divergeIdx = (case findDiverge beforeLines afterLines 0 of
                          Some i \<Rightarrow> i
                        | None \<Rightarrow> length beforeLines);
          newLines = drop divergeIdx afterLines;
          filtered = trim (joinLines (filter (keepLine newLines) newLines))
      in if filtered \<noteq> [] then filtered else NO_RESPONSE)"

section \<open>Concrete inputs\<close>

text \<open>
  Two drop policies to run \<open>enqueueFollowupRun\<close> with: one that always admits and leaves
  the queue alone, and one that refuses every new item (a full queue that keeps the old).
\<close>

definition admitAll :: DropPolicy where
  "admitAll q s = (True, q)"

definition rejectNew :: DropPolicy where
  "rejectNew q s = (False, q)"

definition exClock :: Clock where
  "exClock = \<lparr>now = 1700000000000, isoNow = ascii ''2023-11-14T22:13:20.000Z''\<rparr>"

definition exSettings :: QueueSettings where
  "exSettings = \<lparr>settingsMode = ascii ''followup''\<rparr>"

definition exKey :: jsstring where
  "exKey = ascii ''agent:main''"

definition exRunA :: FollowupRun where
  "exRunA =
     \<lparr>prompt = ascii ''deploy it'', messageId = Some (ascii ''m-1''), summaryLine = None,
      enqueuedAt = 1699999999000, originatingChannel = Some (ascii ''telegram''),
      originatingTo = Some (ascii ''123''), originatingAccountId = None,
      originatingThreadId = None,
      run = Some \<lparr>workspaceDir = Some (ascii ''/ws''), sessionKey = Some (ascii ''s1'')\<rparr>\<rparr>"

text \<open>A redelivery of \<open>exRunA\<close>: same routing, the same message id with blanks around it.\<close>

definition exRunRetry :: FollowupRun where
  "exRunRetry = exRunA\<lparr>messageId := Some (ascii '' m-1 ''), enqueuedAt := 1699999999500\<rparr>"

text \<open>The same message id arriving for another destination.\<close>

definition exRunOther :: FollowupRun where
  "exRunOther = exRunA\<lparr>originatingTo := Some (ascii ''456'')\<rparr>"

text \<open>A run whose context carries no workspace directory, and none with an external destination.\<close>

definition exRunSparse :: FollowupRun where
  "exRunSparse =
     \<lparr>prompt = ascii ''and the tests'', messageId = Some (ascii ''m-2''), summaryLine = None,
      enqueuedAt = 1699999999900, originatingChannel = Some (ascii ''telegram''),
      originatingTo = Some (ascii ''123''), originatingAccountId = None,
      originatingThreadId = None,
      run = Some \<lparr>workspaceDir = None, sessionKey = None\<rparr>\<rparr>"

definition exRunInternal :: FollowupRun where
  "exRunInternal = exRunSparse\<lparr>messageId := None, originatingTo := None\<rparr>"

text \<open>
  A queue that is being drained and whose \<open>lastRun\<close> was recorded by an earlier enqueue of
  \<open>exRunA\<close>, with workspace \<open>/ws\<close>.
\<close>

definition exDrainingQueue :: FollowupQueue where
  "exDrainingQueue =
     \<lparr>items = [exRunA], draining = True, lastEnqueuedAt = 1699999999000,
      lastRun = run exRunA, mode = ascii ''followup''\<rparr>"

definition exQueueStore :: QueueStore where
  "exQueueStore =
     [(ascii ''idle'',
         \<lparr>items = [], draining = False, lastEnqueuedAt = 0, lastRun = None,
          mode = ascii ''followup''\<rparr>),
      (exKey,
         \<lparr>items = [exRunA, exRunInternal], draining = False, lastEnqueuedAt = 1699999999900,
          lastRun = run exRunInternal, mode = ascii ''followup''\<rparr>),
      (ascii ''cron'',
         \<lparr>items = [exRunInternal], draining = False, lastEnqueuedAt = 1699999999900,
          lastRun = run exRunInternal, mode = ascii ''collect''\<rparr>)]"

definition exHandoffData :: HandoffData where
  "exHandoffData =
     \<lparr>savedAt = 1700000000000, version = 1,
      queues = [\<lparr>hq_key = exKey, hq_mode = ascii ''followup'',
                 hq_items =
                   [\<lparr>h_prompt = ascii ''deploy it'', h_messageId = Some (ascii ''m-1''),
                     h_summaryLine = None, h_enqueuedAt = 1699999999000,
                     h_originatingChannel = Some (ascii ''telegram''),
                     h_originatingTo = Some (ascii ''123''), h_originatingAccountId = None,
                     h_originatingThreadId = None,
                     h_sessionKey = Some (ascii ''s1'')\<rparr>]\<rparr>]\<rparr>"

definition exNoFile :: HandoffFs where
  "exNoFile = \<lparr>handoffFile = None, readFails = False, unlinkFails = False, writeFails = False\<rparr>"

text \<open>One second, and ten minutes, after \<open>exClock\<close>.\<close>

definition exClockSoon :: Clock where
  "exClockSoon = \<lparr>now = 1700000001000, isoNow = ascii ''2023-11-14T22:13:21.000Z''\<rparr>"

definition exClockLate :: Clock where
  "exClockLate = \<lparr>now = 1700000600000, isoNow = ascii ''2023-11-14T22:23:20.000Z''\<rparr>"

text \<open>The handoff file in a place where it can be read but not removed.\<close>

definition exStickyFile :: HandoffFs where
  "exStickyFile =
     \<lparr>handoffFile = Some (Snapshot exHandoffData), readFails = False, unlinkFails = True,
      writeFails = False\<rparr>"

text \<open>
  A lower-casing that covers the basic Latin and the Russian capital letters, to stand for
  \<open>String.prototype.toLowerCase\<close> on the example inputs.
\<close>

definition lowerBasic :: "jsstring \<Rightarrow> jsstring" where
  "lowerBasic s =
     map (\<lambda>c. if (65 \<le> c \<and> c \<le> 90) \<or> (1040 \<le> c \<and> c \<le> 1071) then c + 32 else c) s"

definition exEnv :: ProxyEnv where
  "exEnv =
     \<lparr>toLowerCase = lowerBasic,
      checkTmuxSession = (\<lambda>name. True),
      captureTmuxScreen = (\<lambda>name. ascii ''$ ''),
      sendToTmux = (\<lambda>name msg. \<lparr>success = True, outputText = ascii ''done'', error = None\<rparr>),
      runWithResume = (\<lambda>rid dir msg. \<lparr>success = True, outputText = ascii ''done'', error = None\<rparr>)\<rparr>"

definition exChat :: jsstring where
  "exChat = ascii ''42''"

definition exTmuxEntry :: SessionEntry where
  "exTmuxEntry =
     \<lparr>sessionMode = Tmux, tmuxSession = Some (ascii ''work''), resumeId = None, cwd = None,
      label = Some (ascii ''work''), switchedAt = ascii ''2023-11-14T22:00:00.000Z''\<rparr>"

definition exResumeEntry :: SessionEntry where
  "exResumeEntry =
     \<lparr>sessionMode = Resume, tmuxSession = None, resumeId = Some (ascii ''0a1b2c3d-0000''),
      cwd = Some (ascii ''/srv/app''), label = None,
      switchedAt = ascii ''2023-11-14T22:00:00.000Z''\<rparr>"

text \<open>Entries whose mode-specific fields are missing.\<close>

definition exTmuxEntryNoName :: SessionEntry where
  "exTmuxEntryNoName = exTmuxEntry\<lparr>tmuxSession := None\<rparr>"

definition exResumeEntryNoCwd :: SessionEntry where
  "exResumeEntryNoCwd = exResumeEntry\<lparr>cwd := None\<rparr>"

text \<open>
  The messages \<open>"  BACK "\<close> and, in Cyrillic with a capital first letter, \<open>"Nazad"\<close>.
\<close>

definition exBackText :: jsstring where
  "exBackText = ascii ''  BACK ''"

definition exNazadText :: jsstring where
  "exNazadText = [1053, 1072, 1079, 1072, 1076]"

text \<open>
  Two pane captures. Before: the prompt line. After: six new lines, the second of which is
  the decorative separator.
\<close>

definition exPaneBefore :: jsstring where
  "exPaneBefore = [10095] @ ascii '' test''"

definition exPaneAfter :: jsstring where
  "exPaneAfter =
     joinLines [ascii ''Tests:'', SEPARATOR_LINE, ascii ''12 ok'', ascii ''0 bad'',
                ascii ''Done'', ascii ''Next?'']"

text \<open>
  Session files: one entry for \<open>exChat\<close> (attached to tmux, attached to a resumed session,
  and two with mode-specific fields missing), a tmux entry stored for the chat id
  \<open>constructor\<close>, and a file that cannot be written.
\<close>

definition exTmuxFile :: SessionFile where
  "exTmuxFile =
     \<lparr>sessionStore = Some (Map.empty(exChat \<mapsto> exTmuxEntry)), sessionWriteFails = False\<rparr>"

definition exResumeFile :: SessionFile where
  "exResumeFile =
     \<lparr>sessionStore = Some (Map.empty(exChat \<mapsto> exResumeEntry)), sessionWriteFails = False\<rparr>"

definition exTmuxFileNoName :: SessionFile where
  "exTmuxFileNoName =
     \<lparr>sessionStore = Some (Map.empty(exChat \<mapsto> exTmuxEntryNoName)), sessionWriteFails = False\<rparr>"

definition exResumeFileNoCwd :: SessionFile where
  "exResumeFileNoCwd =
     \<lparr>sessionStore = Some (Map.empty(exChat \<mapsto> exResumeEntryNoCwd)), sessionWriteFails = False\<rparr>"

definition exConstructorFile :: SessionFile where
  "exConstructorFile =
     \<lparr>sessionStore = Some (Map.empty(ascii ''constructor'' \<mapsto> exTmuxEntry)),
      sessionWriteFails = False\<rparr>"

definition exReadOnlyFile :: SessionFile where
  "exReadOnlyFile =
     \<lparr>sessionStore = Some (Map.empty(exChat \<mapsto> exTmuxEntry)), sessionWriteFails = True\<rparr>"

section \<open>Evaluation rules\<close>

lemmas string_eval = ascii_def trim_def trimStart_def trimEnd_def isWhiteSpace_def

lemmas example_defs = exClock_def exSettings_def exKey_def exRunA_def exRunRetry_def
  exRunOther_def exRunSparse_def exRunInternal_def exDrainingQueue_def admitAll_def
  rejectNew_def

lemmas handoff_example_defs = exQueueStore_def exHandoffData_def exNoFile_def exClockSoon_def
  exClockLate_def exStickyFile_def

lemmas enqueue_eval = enqueueFollowupRun_def getFollowupQueue_def createFollowupQueue_def
  shouldSkipQueueItem_def dedupeCallback_def isRunAlreadyQueued_def hasSameRouting_def
  orElse_def runWorkspaceDir_def Let_def

section \<open>Deduplication\<close>

lemma isRunAlreadyQueued_same_message:
  assumes "r1 \<in> set its"
      and "hasSameRouting r2 r1"
      and "messageId r1 = Some m1" and "messageId r2 = Some m2"
      and "trim m1 = trim m2" and "trim m2 \<noteq> []"
  shows "isRunAlreadyQueued r2 its allowPromptFallback"
  using assms
  by (auto simp: isRunAlreadyQueued_def Let_def list_ex_iff intro!: bexI[of _ r1])

text \<open>
  C1. Let a queue hold a run \<open>r1\<close>, and let \<open>r2\<close> agree with \<open>r1\<close> on the four originating
  fields and carry a message id whose trimmed form is non-empty and equal to the trimmed
  message id of \<open>r1\<close>. Then \<open>enqueueFollowupRun\<close> with \<open>r2\<close> under dedupe mode
  \<open>message-id\<close> returns false, whatever the drop policy, the settings and the clock, and the
  items of the queue (hence the queue depth) are what they were.
\<close>

theorem enqueue_rejects_routing_identical_message_id:
  assumes "map_of store key = Some q"
      and "r1 \<in> set (items q)"
      and "originatingChannel r1 = originatingChannel r2"
      and "originatingTo r1 = originatingTo r2"
      and "originatingAccountId r1 = originatingAccountId r2"
      and "originatingThreadId r1 = originatingThreadId r2"
      and "messageId r1 = Some m1" and "messageId r2 = Some m2"
      and "trim m1 = trim m2" and "trim m2 \<noteq> []"
  shows "case enqueueFollowupRun policy clk key r2 settings DedupeMessageId store of
           (admitted, store', writes) \<Rightarrow>
             \<not> admitted \<and>
             map_option items (map_of store' key) = Some (items q) \<and>
             getFollowupQueueDepth key store' = getFollowupQueueDepth key store"
proof -
  have "hasSameRouting r2 r1"
    using assms(3-6) by (simp add: hasSameRouting_def)
  then have "isRunAlreadyQueued r2 (items q) False"
    using assms(2,7-10) by (rule_tac isRunAlreadyQueued_same_message)
  then show ?thesis
    using assms(1)
    by (simp add: enqueueFollowupRun_def getFollowupQueue_def shouldSkipQueueItem_def
        dedupeCallback_def getFollowupQueueDepth_def getExistingFollowupQueue_def)
qed

text \<open>
  The theorem at work: \<open>exRunA\<close> is admitted into a fresh queue, and its redelivery
  \<open>exRunRetry\<close> meets the queue that this first call left behind.
\<close>

theorem enqueue_rejects_routing_identical_message_id_witness:
  "map_of (fst (snd (enqueueFollowupRun admitAll exClock exKey exRunA exSettings DedupeMessageId [])))
     exKey
   = Some \<lparr>items = [exRunA], draining = False, lastEnqueuedAt = 1700000000000,
           lastRun = run exRunA, mode = ascii ''followup''\<rparr> \<and>
   originatingChannel exRunA = originatingChannel exRunRetry \<and>
   originatingTo exRunA = originatingTo exRunRetry \<and>
   originatingAccountId exRunA = originatingAccountId exRunRetry \<and>
   originatingThreadId exRunA = originatingThreadId exRunRetry \<and>
   messageId exRunA = Some (ascii ''m-1'') \<and> messageId exRunRetry = Some (ascii '' m-1 '') \<and>
   trim (ascii ''m-1'') = trim (ascii '' m-1 '') \<and> trim (ascii '' m-1 '') \<noteq> [] \<and>
   (case enqueueFollowupRun rejectNew exClock exKey exRunRetry exSettings DedupeMessageId
           (fst (snd (enqueueFollowupRun admitAll exClock exKey exRunA exSettings
                        DedupeMessageId [])))
    of (admitted, store', writes) \<Rightarrow>
         \<not> admitted \<and> map_option items (map_of store' exKey) = Some [exRunA] \<and>
         getFollowupQueueDepth exKey store' = 1)"
proof -
  let ?store1 = "fst (snd (enqueueFollowupRun admitAll exClock exKey exRunA exSettings
                             DedupeMessageId []))"
  let ?q1 = "\<lparr>items = [exRunA], draining = False, lastEnqueuedAt = 1700000000000,
              lastRun = run exRunA, mode = ascii ''followup''\<rparr>"
  have store1: "?store1 = [(exKey, ?q1)]"
    by (simp add: enqueue_eval example_defs)
  have ids: "trim (ascii ''m-1'') = trim (ascii '' m-1 '')" "trim (ascii '' m-1 '') \<noteq> []"
    by (simp_all add: string_eval)
  have depth: "getFollowupQueueDepth exKey [(exKey, ?q1)] = 1"
    by (simp add: getFollowupQueueDepth_def getExistingFollowupQueue_def)
  show ?thesis
    using enqueue_rejects_routing_identical_message_id
      [of "[(exKey, ?q1)]" exKey ?q1 exRunA exRunRetry "ascii ''m-1''" "ascii '' m-1 ''"
          rejectNew exClock exSettings]
      ids depth
    unfolding store1
    by (simp add: exRunA_def exRunRetry_def)
qed

lemma isRunAlreadyQueued_subset:
  "set its' \<subseteq> set its \<Longrightarrow> isRunAlreadyQueued r its' b \<Longrightarrow> isRunAlreadyQueued r its b"
  unfolding isRunAlreadyQueued_def Let_def list_ex_iff
  by (cases "truthy (optTrim (messageId r))"; cases b; simp; blast)

lemma isRunAlreadyQueued_other_destination:
  "originatingTo ra \<noteq> originatingTo rb \<Longrightarrow>
   isRunAlreadyQueued rb (its @ [ra]) b = isRunAlreadyQueued rb its b"
  by (simp add: isRunAlreadyQueued_def Let_def hasSameRouting_def)

section \<open>The two outcomes of the dedup check in \<open>enqueueFollowupRun\<close>\<close>

lemma getFollowupQueue_resolves:
  "map_of (snd (getFollowupQueue key settings store)) key
     = Some (fst (getFollowupQueue key settings store))"
  by (simp add: getFollowupQueue_def update_conv' split: option.splits)

lemma getFollowupQueue_existing:
  "map_of store key = Some q \<Longrightarrow> getFollowupQueue key settings store = (q, store)"
  by (simp add: getFollowupQueue_def)

lemma enqueue_skipped:
  assumes "shouldSkipQueueItem r (items (fst (getFollowupQueue key settings store)))
             (dedupeCallback m)"
  shows "enqueueFollowupRun policy clk key r settings m store
           = (False, snd (getFollowupQueue key settings store), [])"
  using assms
  by (simp add: enqueueFollowupRun_def Let_def split_beta)

lemma enqueue_not_skipped:
  assumes "\<not> shouldSkipQueueItem r (items (fst (getFollowupQueue key settings store)))
               (dedupeCallback m)"
  shows "fst (enqueueFollowupRun policy clk key r settings m store) =
           fst (policy (fst (getFollowupQueue key settings store)
                          \<lparr>lastEnqueuedAt := now clk, lastRun := run r\<rparr>) summarize)"
    and "map_of (fst (snd (enqueueFollowupRun policy clk key r settings m store))) key =
           Some (let p = policy (fst (getFollowupQueue key settings store)
                                   \<lparr>lastEnqueuedAt := now clk, lastRun := run r\<rparr>) summarize
                 in if fst p then (snd p)\<lparr>items := items (snd p) @ [r]\<rparr> else snd p)"
  using assms
  by (simp_all add: enqueueFollowupRun_def Let_def split_beta update_conv')

text \<open>
  C2. Two runs with different \<open>originatingTo\<close> (in particular two with the same non-empty
  message id) are enqueued one after the other under dedupe mode \<open>message-id\<close> into a queue
  that holds no duplicate of either. The drop policy is one that admits and that puts no
  run into the queue by itself. Then both calls return true, the second is not taken for a
  duplicate of the first, and the second run ends up last in the queue.
\<close>

theorem enqueue_admits_same_message_id_other_destination:
  assumes diff: "originatingTo ra \<noteq> originatingTo rb"
      and evicts: "\<And>q s. set (items (snd (policy q s))) \<subseteq> set (items q)"
      and admits: "\<And>q s. fst (policy q s)"
      and fresha: "\<not> isRunAlreadyQueued ra (items (fst (getFollowupQueue key settings store))) False"
      and freshb: "\<not> isRunAlreadyQueued rb (items (fst (getFollowupQueue key settings store))) False"
  shows "case enqueueFollowupRun policy clka key ra settings DedupeMessageId store of
           (admitteda, storea, wa) \<Rightarrow>
             admitteda \<and>
             (case enqueueFollowupRun policy clkb key rb settingsb DedupeMessageId storea of
                (admittedb, storeb, wb) \<Rightarrow>
                  \<not> shouldSkipQueueItem rb (items (fst (getFollowupQueue key settingsb storea)))
                       (dedupeCallback DedupeMessageId) \<and>
                  admittedb \<and>
                  (case map_of storeb key of
                     None \<Rightarrow> False
                   | Some q \<Rightarrow> items q \<noteq> [] \<and> last (items q) = rb))"
proof -
  let ?q0 = "fst (getFollowupQueue key settings store)"
  let ?pa = "policy (?q0\<lparr>lastEnqueuedAt := now clka, lastRun := run ra\<rparr>) summarize"
  let ?qa = "(snd ?pa)\<lparr>items := items (snd ?pa) @ [ra]\<rparr>"
  let ?ea = "enqueueFollowupRun policy clka key ra settings DedupeMessageId store"
  let ?storea = "fst (snd ?ea)"
  have noskipa: "\<not> shouldSkipQueueItem ra (items ?q0) (dedupeCallback DedupeMessageId)"
    using fresha by (simp add: shouldSkipQueueItem_def dedupeCallback_def)
  have a1: "fst ?ea"
    using enqueue_not_skipped(1)[OF noskipa] admits by simp
  have s1: "map_of ?storea key = Some ?qa"
    using enqueue_not_skipped(2)[OF noskipa, of policy clka] admits by (simp add: Let_def)
  have g1: "getFollowupQueue key settingsb ?storea = (?qa, ?storea)"
    using s1 by (rule getFollowupQueue_existing)
  have sub: "set (items (snd ?pa)) \<subseteq> set (items ?q0)"
    using evicts[of "?q0\<lparr>lastEnqueuedAt := now clka, lastRun := run ra\<rparr>" summarize] by simp
  have "\<not> isRunAlreadyQueued rb (items (snd ?pa)) False"
    using freshb isRunAlreadyQueued_subset[OF sub] by blast
  then have "\<not> isRunAlreadyQueued rb (items ?qa) False"
    using isRunAlreadyQueued_other_destination[OF diff] by simp
  then have noskipb:
    "\<not> shouldSkipQueueItem rb (items (fst (getFollowupQueue key settingsb ?storea)))
          (dedupeCallback DedupeMessageId)"
    by (simp add: g1 shouldSkipQueueItem_def dedupeCallback_def)
  let ?eb = "enqueueFollowupRun policy clkb key rb settingsb DedupeMessageId ?storea"
  have a2: "fst ?eb"
    using enqueue_not_skipped(1)[OF noskipb] admits by simp
  have s2: "\<exists>q. map_of (fst (snd ?eb)) key = Some q \<and> items q \<noteq> [] \<and> last (items q) = rb"
    using enqueue_not_skipped(2)[OF noskipb, of policy clkb] admits by (simp add: Let_def)
  show ?thesis
    using a1 a2 s2 noskipb by (auto simp: split_beta split: option.splits)
qed

theorem enqueue_admits_same_message_id_other_destination_witness:
  "originatingTo exRunA \<noteq> originatingTo exRunOther \<and>
   messageId exRunA = messageId exRunOther \<and> truthy (optTrim (messageId exRunA)) \<and>
   \<not> isRunAlreadyQueued exRunA (items (fst (getFollowupQueue exKey exSettings []))) False \<and>
   \<not> isRunAlreadyQueued exRunOther (items (fst (getFollowupQueue exKey exSettings []))) False \<and>
   (case enqueueFollowupRun admitAll exClock exKey exRunA exSettings DedupeMessageId [] of
      (admitteda, storea, wa) \<Rightarrow>
        admitteda \<and>
        (case enqueueFollowupRun admitAll exClock exKey exRunOther exSettings DedupeMessageId
                storea of
           (admittedb, storeb, wb) \<Rightarrow>
             \<not> shouldSkipQueueItem exRunOther
                  (items (fst (getFollowupQueue exKey exSettings storea)))
                  (dedupeCallback DedupeMessageId) \<and>
             admittedb \<and>
             (case map_of storeb exKey of
                None \<Rightarrow> False
              | Some q \<Rightarrow> items q \<noteq> [] \<and> last (items q) = exRunOther)))"
proof -
  have h1: "originatingTo exRunA \<noteq> originatingTo exRunOther"
    by (simp add: exRunA_def exRunOther_def ascii_def)
  have h2: "messageId exRunA = messageId exRunOther" "truthy (optTrim (messageId exRunA))"
    by (simp_all add: exRunA_def exRunOther_def string_eval)
  have h3: "\<And>q s. set (items (snd (admitAll q s))) \<subseteq> set (items q)"
    by (simp add: admitAll_def)
  have h4: "\<And>q s. fst (admitAll q s)"
    by (simp add: admitAll_def)
  have h5: "\<not> isRunAlreadyQueued exRunA (items (fst (getFollowupQueue exKey exSettings []))) False"
    "\<not> isRunAlreadyQueued exRunOther (items (fst (getFollowupQueue exKey exSettings []))) False"
    by (simp_all add: getFollowupQueue_def createFollowupQueue_def isRunAlreadyQueued_def)
  show ?thesis
    using enqueue_admits_same_message_id_other_destination
            [where ra = exRunA and rb = exRunOther and policy = admitAll and key = exKey
               and settings = exSettings and store = "[]" and clka = exClock
               and clkb = exClock and settingsb = exSettings, OF h1 h3 h4 h5]
          h1 h2 h5
    by simp
qed

section \<open>What an enqueue attempt records\<close>

text \<open>
  C6. The drop policy is taken not to write \<open>lastEnqueuedAt\<close> and \<open>lastRun\<close>. When the
  candidate passes deduplication, the queue afterwards has \<open>lastEnqueuedAt\<close> equal to the
  current time and \<open>lastRun\<close> equal to the run's context, whether the drop policy then admits
  the item or not (the returned boolean is the decision of the drop policy). When the
  candidate is rejected by deduplication, the call returns false and both fields are what
  they were.
\<close>

theorem enqueue_records_attempt_past_dedup:
  assumes frame: "\<And>q s. lastEnqueuedAt (snd (policy q s)) = lastEnqueuedAt q \<and>
                         lastRun (snd (policy q s)) = lastRun q"
  shows "case enqueueFollowupRun policy clk key r settings dedupeMode store of
           (admitted, store', writes) \<Rightarrow>
             (let q0 = fst (getFollowupQueue key settings store) in
              (\<not> shouldSkipQueueItem r (items q0) (dedupeCallback dedupeMode) \<longrightarrow>
                 map_option lastEnqueuedAt (map_of store' key) = Some (now clk) \<and>
                 map_option lastRun (map_of store' key) = Some (run r) \<and>
                 admitted = fst (policy (q0\<lparr>lastEnqueuedAt := now clk, lastRun := run r\<rparr>)
                                   summarize)) \<and>
              (shouldSkipQueueItem r (items q0) (dedupeCallback dedupeMode) \<longrightarrow>
                 \<not> admitted \<and>
                 map_option lastEnqueuedAt (map_of store' key) = Some (lastEnqueuedAt q0) \<and>
                 map_option lastRun (map_of store' key) = Some (lastRun q0)))"
proof (cases "shouldSkipQueueItem r (items (fst (getFollowupQueue key settings store)))
                (dedupeCallback dedupeMode)")
  case True
  show ?thesis
    using True enqueue_skipped[OF True, of policy clk]
      getFollowupQueue_resolves[of key settings store]
    by (simp add: Let_def)
next
  case False
  show ?thesis
    using False enqueue_not_skipped[OF False, of policy clk] frame
    by (simp add: Let_def split_beta)
qed

text \<open>
  Two calls on the draining example queue with the policy that refuses every new item:
  \<open>exRunSparse\<close> passes deduplication and is then refused, \<open>exRunRetry\<close> is a duplicate.
\<close>

theorem enqueue_records_attempt_past_dedup_witness:
  "(case enqueueFollowupRun rejectNew exClock exKey exRunSparse exSettings DedupeMessageId
           [(exKey, exDrainingQueue)] of
      (admitted, store', writes) \<Rightarrow>
        \<not> shouldSkipQueueItem exRunSparse (items exDrainingQueue)
             (dedupeCallback DedupeMessageId) \<and>
        \<not> admitted \<and>
        map_option lastEnqueuedAt (map_of store' exKey) = Some 1700000000000 \<and>
        map_option lastRun (map_of store' exKey) = Some (run exRunSparse) \<and>
        lastEnqueuedAt exDrainingQueue = 1699999999000 \<and>
        lastRun exDrainingQueue = run exRunA \<and> run exRunA \<noteq> run exRunSparse) \<and>
   (case enqueueFollowupRun rejectNew exClock exKey exRunRetry exSettings DedupeMessageId
           [(exKey, exDrainingQueue)] of
      (admitted, store', writes) \<Rightarrow>
        shouldSkipQueueItem exRunRetry (items exDrainingQueue)
          (dedupeCallback DedupeMessageId) \<and>
        \<not> admitted \<and>
        map_option lastEnqueuedAt (map_of store' exKey) = Some 1699999999000 \<and>
        map_option lastRun (map_of store' exKey) = Some (run exRunA))"
proof -
  have frame: "\<And>q s. lastEnqueuedAt (snd (rejectNew q s)) = lastEnqueuedAt q \<and>
                      lastRun (snd (rejectNew q s)) = lastRun q"
    by (simp add: rejectNew_def)
  have g: "\<And>settings. fst (getFollowupQueue exKey settings [(exKey, exDrainingQueue)])
                          = exDrainingQueue"
    by (simp add: getFollowupQueue_def)
  have pass: "\<not> shouldSkipQueueItem exRunSparse (items exDrainingQueue)
                   (dedupeCallback DedupeMessageId)"
    by (simp add: shouldSkipQueueItem_def dedupeCallback_def isRunAlreadyQueued_def
        hasSameRouting_def exDrainingQueue_def exRunSparse_def exRunA_def string_eval)
  have dup: "shouldSkipQueueItem exRunRetry (items exDrainingQueue)
               (dedupeCallback DedupeMessageId)"
    by (simp add: shouldSkipQueueItem_def dedupeCallback_def isRunAlreadyQueued_def
        hasSameRouting_def exDrainingQueue_def exRunRetry_def exRunA_def string_eval)
  have vals: "lastEnqueuedAt exDrainingQueue = 1699999999000"
    "lastRun exDrainingQueue = run exRunA"
    "run exRunA \<noteq> run exRunSparse" "now exClock = 1700000000000"
    by (simp_all add: exDrainingQueue_def exRunA_def exRunSparse_def exClock_def)
  have rej: "\<And>q s. fst (rejectNew q s) = False"
    by (simp add: rejectNew_def)
  show ?thesis
    using enqueue_records_attempt_past_dedup
            [where policy = rejectNew and clk = exClock and key = exKey and r = exRunSparse
               and settings = exSettings and dedupeMode = DedupeMessageId
               and store = "[(exKey, exDrainingQueue)]", OF frame]
          enqueue_records_attempt_past_dedup
            [where policy = rejectNew and clk = exClock and key = exKey and r = exRunRetry
               and settings = exSettings and dedupeMode = DedupeMessageId
               and store = "[(exKey, exDrainingQueue)]", OF frame]
          pass dup vals
    by (simp add: g rej split_beta Let_def)
qed

section \<open>The inbox side-write\<close>

text \<open>
  With a drop policy that does not write \<open>lastRun\<close>, an inbox write happens only when the
  run's own context has a workspace directory: by the time the fallback
  \<open>queue.lastRun?.workspaceDir\<close> is read, \<open>queue.lastRun\<close> has already been overwritten with
  the context of the run being enqueued.
\<close>

lemma inbox_write_needs_own_workspace:
  assumes frame: "\<And>q s. lastRun (snd (policy q s)) = lastRun q"
      and "snd (snd (enqueueFollowupRun policy clk key r settings dedupeMode store)) \<noteq> []"
  shows "truthy (runWorkspaceDir (run r))"
  using assms
  by (auto simp: enqueueFollowupRun_def Let_def split_beta orElse_def
      split: if_splits option.splits)

lemma inbox_write_with_own_workspace:
  "enqueueFollowupRun admitAll exClock exKey exRunOther exSettings DedupeMessageId
       [(exKey, exDrainingQueue)]
     = (True,
        [(exKey, exDrainingQueue\<lparr>items := [exRunA, exRunOther],
                                 lastEnqueuedAt := 1700000000000,
                                 lastRun := run exRunOther\<rparr>)],
        [AppendInbox (ascii ''/ws'') (inboxEntryText (isoNow exClock) (prompt exRunOther))])"
  by (simp add: enqueue_eval example_defs string_eval)

text \<open>
  C7. The specification has a run whose context has no workspace directory, admitted into
  a draining queue whose \<open>lastRun\<close> has one, written to the inbox of that earlier
  workspace. The code does not do so. Here the queue is draining, its \<open>lastRun\<close> was recorded
  with workspace \<open>/ws\<close>, the run \<open>exRunSparse\<close> is admitted, and no inbox write is made;
  \<open>lastRun\<close> now is the sparse context.
\<close>

theorem enqueue_sparse_run_skips_inbox_write:
  "draining exDrainingQueue \<and>
   runWorkspaceDir (lastRun exDrainingQueue) = Some (ascii ''/ws'') \<and>
   runWorkspaceDir (run exRunSparse) = None \<and>
   enqueueFollowupRun admitAll exClock exKey exRunSparse exSettings DedupeMessageId
       [(exKey, exDrainingQueue)]
     = (True,
        [(exKey, exDrainingQueue\<lparr>items := [exRunA, exRunSparse],
                                 lastEnqueuedAt := 1700000000000,
                                 lastRun := run exRunSparse\<rparr>)],
        [])"
  by (simp add: enqueue_eval example_defs string_eval)

section \<open>Restart handoff: loading\<close>

text \<open>
  C3, as the code has it. The specification says that whenever the handoff file exists a
  second call returns null. \<open>unlinkSync\<close> sits in its own \<open>try\<close>, and a failure of it is
  swallowed. What holds, for a file that exists, whatever it held (a fresh snapshot, a stale
  one, or text that does not parse) and whatever the clocks of the two calls: when the
  unlink does not fail, a second call returns null, and when the file could be read it is
  gone after the first call; when the unlink fails, the first call leaves the file system
  as it was, the file still in place.
\<close>

theorem loadAndClear_second_call_null_when_unlinked:
  assumes "handoffFile fs = Some content"
  shows "(\<not> unlinkFails fs \<longrightarrow>
            fst (loadAndClearRestartHandoff clkb (snd (loadAndClearRestartHandoff clka fs))) = None \<and>
            (\<not> readFails fs \<longrightarrow>
               handoffFile (snd (loadAndClearRestartHandoff clka fs)) = None)) \<and>
         (unlinkFails fs \<longrightarrow> snd (loadAndClearRestartHandoff clka fs) = fs)"
  using assms
  by (cases content) (simp_all add: loadAndClearRestartHandoff_def Let_def)

theorem loadAndClear_second_call_null_when_unlinked_witness:
  "(handoffFile (exStickyFile\<lparr>unlinkFails := False\<rparr>) = Some (Snapshot exHandoffData) \<and>
    \<not> unlinkFails (exStickyFile\<lparr>unlinkFails := False\<rparr>) \<and>
    \<not> readFails (exStickyFile\<lparr>unlinkFails := False\<rparr>) \<and>
    fst (loadAndClearRestartHandoff exClockSoon (exStickyFile\<lparr>unlinkFails := False\<rparr>))
      = Some exHandoffData \<and>
    fst (loadAndClearRestartHandoff exClockSoon
           (snd (loadAndClearRestartHandoff exClockSoon (exStickyFile\<lparr>unlinkFails := False\<rparr>))))
      = None \<and>
    handoffFile (snd (loadAndClearRestartHandoff exClockSoon
                        (exStickyFile\<lparr>unlinkFails := False\<rparr>))) = None) \<and>
   (handoffFile exStickyFile = Some (Snapshot exHandoffData) \<and>
    unlinkFails exStickyFile \<and>
    snd (loadAndClearRestartHandoff exClockSoon exStickyFile) = exStickyFile)"
proof -
  have first: "fst (loadAndClearRestartHandoff exClockSoon (exStickyFile\<lparr>unlinkFails := False\<rparr>))
                 = Some exHandoffData"
    by (simp add: loadAndClearRestartHandoff_def Let_def handoff_example_defs
        HANDOFF_MAX_AGE_MS_def)
  show ?thesis
    using loadAndClear_second_call_null_when_unlinked
            [where fs = "exStickyFile\<lparr>unlinkFails := False\<rparr>"
               and content = "Snapshot exHandoffData"
               and clka = exClockSoon and clkb = exClockSoon]
          loadAndClear_second_call_null_when_unlinked
            [where fs = exStickyFile and content = "Snapshot exHandoffData"
               and clka = exClockSoon and clkb = exClockSoon]
          first
    by (simp add: exStickyFile_def)
qed

text \<open>
  C3 as the specification states it fails where the file exists and cannot be removed:
  both calls return the snapshot.
\<close>

theorem loadAndClear_replays_when_unlink_fails:
  "handoffFile exStickyFile = Some (Snapshot exHandoffData) \<and>
   fst (loadAndClearRestartHandoff exClockSoon exStickyFile) = Some exHandoffData \<and>
   fst (loadAndClearRestartHandoff exClockSoon
          (snd (loadAndClearRestartHandoff exClockSoon exStickyFile))) = Some exHandoffData"
  by (simp add: loadAndClearRestartHandoff_def Let_def handoff_example_defs
      HANDOFF_MAX_AGE_MS_def)

text \<open>
  C4. When the file holds a snapshot that parses and whose \<open>savedAt\<close> lies more than
  300000 ms before the current time, \<open>loadAndClearRestartHandoff\<close> returns null.
\<close>

theorem loadAndClear_rejects_stale_snapshot:
  assumes "handoffFile fs = Some (Snapshot data)"
      and "now clk - savedAt data > 300000"
  shows "fst (loadAndClearRestartHandoff clk fs) = None"
  using assms
  by (simp add: loadAndClearRestartHandoff_def Let_def HANDOFF_MAX_AGE_MS_def)

theorem loadAndClear_rejects_stale_snapshot_witness:
  "handoffFile exStickyFile = Some (Snapshot exHandoffData) \<and>
   now exClockLate - savedAt exHandoffData = 600000 \<and>
   fst (loadAndClearRestartHandoff exClockLate exStickyFile) = None"
  using loadAndClear_rejects_stale_snapshot
          [where fs = exStickyFile and data = exHandoffData and clk = exClockLate]
  by (simp add: handoff_example_defs)

section \<open>Restart handoff: saving\<close>

lemma truthy_carriesOriginatingTo: "truthy (originatingTo item) = carriesOriginatingTo item"
  by (cases "originatingTo item") (simp_all add: carriesOriginatingTo_def)

text \<open>
  The queues collected by the loop, field by field: in store order, one for each queue
  that contributes, with its key and mode and, in queue order, one item for each item that
  carries an \<open>originatingTo\<close>, with that item's fields.
\<close>

lemma collectHandoffQueues_fields:
  "collectHandoffQueues store =
     map (\<lambda>(key, queue).
            \<lparr>hq_key = key, hq_mode = mode queue,
             hq_items =
               map (\<lambda>item.
                      \<lparr>h_prompt = prompt item, h_messageId = messageId item,
                       h_summaryLine = summaryLine item, h_enqueuedAt = enqueuedAt item,
                       h_originatingChannel = originatingChannel item,
                       h_originatingTo = originatingTo item,
                       h_originatingAccountId = originatingAccountId item,
                       h_originatingThreadId = originatingThreadId item,
                       h_sessionKey = (case run item of None \<Rightarrow> None | Some c \<Rightarrow> sessionKey c)\<rparr>)
                   (filter carriesOriginatingTo (items queue))\<rparr>)
         (filter contributes store)"
proof (induction store)
  case Nil
  show ?case by simp
next
  case (Cons kq rest)
  obtain key queue where kq: "kq = (key, queue)" by (cases kq)
  have ex: "contributes (key, queue) \<longleftrightarrow> filter carriesOriginatingTo (items queue) \<noteq> []"
    by (simp add: contributes_def list_ex_iff filter_empty_conv)
  have proj: "toHandoffItem = (\<lambda>item.
                \<lparr>h_prompt = prompt item, h_messageId = messageId item,
                 h_summaryLine = summaryLine item, h_enqueuedAt = enqueuedAt item,
                 h_originatingChannel = originatingChannel item,
                 h_originatingTo = originatingTo item,
                 h_originatingAccountId = originatingAccountId item,
                 h_originatingThreadId = originatingThreadId item,
                 h_sessionKey = (case run item of None \<Rightarrow> None | Some c \<Rightarrow> sessionKey c)\<rparr>)"
    by (rule ext) (simp add: toHandoffItem_def)
  show ?case
    using Cons.IH unfolding kq
    by (auto simp: Let_def truthy_carriesOriginatingTo ex proj)
qed

lemma collectHandoffQueues_nonempty_items:
  "list_all (\<lambda>hq. hq_items hq \<noteq> [] \<and>
                   list_all (\<lambda>it. truthy (h_originatingTo it)) (hq_items hq))
     (collectHandoffQueues store)"
proof (induction store)
  case Nil
  show ?case by simp
next
  case (Cons kq rest)
  obtain key queue where kq: "kq = (key, queue)" by (cases kq)
  show ?case
    using Cons.IH unfolding kq
    by (auto simp: Let_def list_all_iff toHandoffItem_def)
qed

lemma collectHandoffQueues_empty:
  "collectHandoffQueues store = [] \<longleftrightarrow> filter contributes store = []"
  by (simp add: collectHandoffQueues_fields)

text \<open>
  C5, as the code has it. The specification has \<open>saveRestartHandoff\<close> persist the items
  with a non-empty \<open>originatingTo\<close>; the write sits in a \<open>try\<close> whose \<open>catch\<close> logs, so a write
  that throws persists nothing. What holds when the write does not throw: the file
  receives the snapshot with the current time, version 1 and, in store order, one queue
  (key and mode) for each queue holding an item with a non-empty \<open>originatingTo\<close>, with, in
  queue order, exactly those items, each with the prompt, message id, summary line,
  enqueue time and four originating fields of the item and the session key of its run
  context. No saved queue is empty and every saved item has a non-empty \<open>originatingTo\<close>.
  When no queue contributes, the file system is left as it was.
\<close>

theorem saveRestartHandoff_persists_selection:
  assumes "\<not> writeFails fs"
  shows "saveRestartHandoff clk store fs =
           (if filter contributes store = [] then fs
            else fs\<lparr>handoffFile :=
                       Some (Snapshot \<lparr>savedAt = now clk, version = 1,
                                       queues = collectHandoffQueues store\<rparr>)\<rparr>) \<and>
         collectHandoffQueues store =
           map (\<lambda>(key, queue).
                  \<lparr>hq_key = key, hq_mode = mode queue,
                   hq_items =
                     map (\<lambda>item.
                            \<lparr>h_prompt = prompt item, h_messageId = messageId item,
                             h_summaryLine = summaryLine item, h_enqueuedAt = enqueuedAt item,
                             h_originatingChannel = originatingChannel item,
                             h_originatingTo = originatingTo item,
                             h_originatingAccountId = originatingAccountId item,
                             h_originatingThreadId = originatingThreadId item,
                             h_sessionKey =
                               (case run item of None \<Rightarrow> None | Some c \<Rightarrow> sessionKey c)\<rparr>)
                         (filter carriesOriginatingTo (items queue))\<rparr>)
               (filter contributes store) \<and>
         list_all (\<lambda>hq. hq_items hq \<noteq> [] \<and>
                         list_all (\<lambda>it. truthy (h_originatingTo it)) (hq_items hq))
           (collectHandoffQueues store)"
proof -
  have saved: "saveRestartHandoff clk store fs =
           (if filter contributes store = [] then fs
            else fs\<lparr>handoffFile :=
                       Some (Snapshot \<lparr>savedAt = now clk, version = 1,
                                       queues = collectHandoffQueues store\<rparr>)\<rparr>)"
    using assms by (simp add: saveRestartHandoff_def Let_def collectHandoffQueues_empty)
  show ?thesis
    using saved collectHandoffQueues_fields[of store] collectHandoffQueues_nonempty_items[of store]
    by blast
qed

text \<open>
  The store \<open>exQueueStore\<close> has an empty queue, a queue with one item that has a
  destination and one that has none, and a queue whose only item has none: one queue with
  one item is saved, written out here field by field. A store with nothing to deliver
  leaves no file. The saved file is read back one second later, and is gone after that.
\<close>

theorem saveRestartHandoff_persists_selection_witness:
  "\<not> writeFails exNoFile \<and>
   saveRestartHandoff exClock exQueueStore exNoFile
     = exNoFile\<lparr>handoffFile := Some (Snapshot
         \<lparr>savedAt = 1700000000000, version = 1,
          queues =
            [\<lparr>hq_key = ascii ''agent:main'', hq_mode = ascii ''followup'',
              hq_items =
                [\<lparr>h_prompt = ascii ''deploy it'', h_messageId = Some (ascii ''m-1''),
                  h_summaryLine = None, h_enqueuedAt = 1699999999000,
                  h_originatingChannel = Some (ascii ''telegram''),
                  h_originatingTo = Some (ascii ''123''), h_originatingAccountId = None,
                  h_originatingThreadId = None,
                  h_sessionKey = Some (ascii ''s1'')\<rparr>]\<rparr>]\<rparr>)\<rparr> \<and>
   saveRestartHandoff exClock [(exKey, exDrainingQueue\<lparr>items := [exRunInternal]\<rparr>)] exNoFile
     = exNoFile \<and>
   loadAndClearRestartHandoff exClockSoon (saveRestartHandoff exClock exQueueStore exNoFile)
     = (Some exHandoffData, exNoFile)"
proof -
  have w: "\<not> writeFails exNoFile"
    by (simp add: exNoFile_def)
  have c1: "filter contributes exQueueStore
              = [(exKey, \<lparr>items = [exRunA, exRunInternal], draining = False,
                          lastEnqueuedAt = 1699999999900, lastRun = run exRunInternal,
                          mode = ascii ''followup''\<rparr>)]"
    by (simp add: contributes_def exQueueStore_def carriesOriginatingTo_def exRunA_def
        exRunInternal_def exRunSparse_def ascii_def)
  have c2: "filter contributes [(exKey, exDrainingQueue\<lparr>items := [exRunInternal]\<rparr>)] = []"
    by (simp add: contributes_def carriesOriginatingTo_def exRunInternal_def exRunSparse_def)
  have ne: "ascii ''123'' \<noteq> []"
    by (simp add: ascii_def)
  have q: "collectHandoffQueues exQueueStore = queues exHandoffData"
    using saveRestartHandoff_persists_selection[OF w, of exClock exQueueStore]
    unfolding c1
    by (simp add: carriesOriginatingTo_def exRunA_def exRunInternal_def exRunSparse_def
        exHandoffData_def exKey_def ne)
  have saved: "saveRestartHandoff exClock exQueueStore exNoFile
                 = exNoFile\<lparr>handoffFile := Some (Snapshot exHandoffData)\<rparr>"
    using saveRestartHandoff_persists_selection[OF w, of exClock exQueueStore] c1 q
    by (simp add: exHandoffData_def exClock_def)
  have unsaved: "saveRestartHandoff exClock [(exKey, exDrainingQueue\<lparr>items := [exRunInternal]\<rparr>)]
                   exNoFile = exNoFile"
    using saveRestartHandoff_persists_selection
            [OF w, of exClock "[(exKey, exDrainingQueue\<lparr>items := [exRunInternal]\<rparr>)]"] c2
    by simp
  have loaded: "loadAndClearRestartHandoff exClockSoon
                  (exNoFile\<lparr>handoffFile := Some (Snapshot exHandoffData)\<rparr>)
                = (Some exHandoffData, exNoFile)"
    by (simp add: loadAndClearRestartHandoff_def Let_def exNoFile_def exHandoffData_def
        exClockSoon_def HANDOFF_MAX_AGE_MS_def)
  have lit: "exHandoffData =
         \<lparr>savedAt = 1700000000000, version = 1,
          queues =
            [\<lparr>hq_key = ascii ''agent:main'', hq_mode = ascii ''followup'',
              hq_items =
                [\<lparr>h_prompt = ascii ''deploy it'', h_messageId = Some (ascii ''m-1''),
                  h_summaryLine = None, h_enqueuedAt = 1699999999000,
                  h_originatingChannel = Some (ascii ''telegram''),
                  h_originatingTo = Some (ascii ''123''), h_originatingAccountId = None,
                  h_originatingThreadId = None,
                  h_sessionKey = Some (ascii ''s1'')\<rparr>]\<rparr>]\<rparr>"
    by (simp add: exHandoffData_def exKey_def)
  show ?thesis
    using w saved unsaved loaded unfolding lit by simp
qed

text \<open>
  C5 as the specification states it fails where the write throws: \<open>exQueueStore\<close> holds an
  item with the destination \<open>123\<close>, and nothing is persisted.
\<close>

theorem saveRestartHandoff_persists_nothing_when_write_fails:
  "carriesOriginatingTo exRunA \<and>
   filter contributes exQueueStore \<noteq> [] \<and>
   writeFails (exNoFile\<lparr>writeFails := True\<rparr>) \<and>
   saveRestartHandoff exClock exQueueStore (exNoFile\<lparr>writeFails := True\<rparr>)
     = exNoFile\<lparr>writeFails := True\<rparr> \<and>
   handoffFile (saveRestartHandoff exClock exQueueStore (exNoFile\<lparr>writeFails := True\<rparr>)) = None"
  by (simp add: saveRestartHandoff_def Let_def contributes_def carriesOriginatingTo_def
      exQueueStore_def exRunA_def exRunInternal_def exRunSparse_def exNoFile_def
      toHandoffItem_def ascii_def)

section \<open>Interactive session router\<close>

text \<open>
  C8, as the code has it. The specification has a back command remove the entry so that
  the next call for the chat id answers \<open>handled: false\<close>. Two things stand in the way: the
  write of the session file has no handler, so when it throws the call throws and the
  entry stays; and the lookup \<open>store[chatId]\<close> reads through \<open>Object.prototype\<close>, so for a chat
  id that names one of its members something is found although the entry is gone. What
  holds for a stored entry of either mode and a message that, lower-cased and trimmed, is a
  back command, when the write does not throw: the call answers \<open>handled: true\<close> with the
  confirmation naming the session, and the entry is gone from the store; and for a chat id
  that is not the name of a member of \<open>Object.prototype\<close>, a following call for the same chat
  id, with any text, answers \<open>handled: false\<close> and leaves the store alone.
\<close>

theorem tryProxyMessage_back_command_detaches:
  assumes stored: "getSession chatId f = Some (Stored session)"
      and backcmd: "isBackCommand env messageText"
      and writable: "\<not> sessionWriteFails f"
  shows "fst (tryProxyMessage env chatId messageText f) =
           Inr \<lparr>handled = True,
                response = Some (backResponse
                  (if sessionMode session = Tmux
                   then ascii ''tmux:'' @ templ (tmuxSession session)
                   else ascii ''resume:'' @ templ (map_option (take 8) (resumeId session))))\<rparr> \<and>
         loadState (snd (tryProxyMessage env chatId messageText f)) chatId = None \<and>
         (chatId \<notin> set OBJECT_PROTOTYPE_KEYS \<longrightarrow>
            getSession chatId (snd (tryProxyMessage env chatId messageText f)) = None \<and>
            tryProxyMessage envb chatId textb (snd (tryProxyMessage env chatId messageText f))
              = (Inr \<lparr>handled = False, response = None\<rparr>,
                 snd (tryProxyMessage env chatId messageText f)))"
proof -
  let ?f' = "f\<lparr>sessionStore := Some ((loadState f)(chatId := None))\<rparr>"
  have clr: "clearSession chatId f = Inr (True, ?f')"
    using stored writable
    by (simp add: clearSession_def getSession_def saveState_def Let_def)
  have step: "tryProxyMessage env chatId messageText f =
      (Inr \<lparr>handled = True,
            response = Some (backResponse
              (if sessionMode session = Tmux
               then ascii ''tmux:'' @ templ (tmuxSession session)
               else ascii ''resume:'' @ templ (map_option (take 8) (resumeId session))))\<rparr>,
       ?f')"
    using stored backcmd
    by (simp add: tryProxyMessage_def clr Let_def valueMode_def valueTmuxSession_def
        valueResumeId_def)
  have own: "loadState ?f' chatId = None"
    by (simp add: loadState_def)
  have gone: "chatId \<notin> set OBJECT_PROTOTYPE_KEYS \<Longrightarrow> getSession chatId ?f' = None"
    using own by (simp add: getSession_def storeGet_def)
  show ?thesis
    unfolding step using own gone by (simp add: tryProxyMessage_def)
qed

lemma exChat_not_inherited: "exChat \<notin> set OBJECT_PROTOTYPE_KEYS"
  by (simp add: exChat_def OBJECT_PROTOTYPE_KEYS_def ascii_def)

lemma exNazadText_back: "isBackCommand exEnv exNazadText"
  by (simp add: isBackCommand_def exEnv_def exNazadText_def lowerBasic_def BACK_COMMANDS_def
      string_eval)

lemma exBackText_back: "isBackCommand exEnv exBackText"
  by (simp add: isBackCommand_def exEnv_def exBackText_def lowerBasic_def BACK_COMMANDS_def
      string_eval)

text \<open>
  A chat attached to a tmux session receives the Cyrillic back command with a capital
  letter; a chat attached to a resumed session receives \<open>"  BACK "\<close>.
\<close>

theorem tryProxyMessage_back_command_detaches_witness:
  "(getSession exChat exTmuxFile = Some (Stored exTmuxEntry) \<and>
    isBackCommand exEnv exNazadText \<and>
    \<not> sessionWriteFails exTmuxFile \<and>
    exChat \<notin> set OBJECT_PROTOTYPE_KEYS \<and>
    fst (tryProxyMessage exEnv exChat exNazadText exTmuxFile)
      = Inr \<lparr>handled = True, response = Some (backResponse (ascii ''tmux:work''))\<rparr> \<and>
    getSession exChat (snd (tryProxyMessage exEnv exChat exNazadText exTmuxFile)) = None \<and>
    fst (tryProxyMessage exEnv exChat (ascii ''hello'')
           (snd (tryProxyMessage exEnv exChat exNazadText exTmuxFile)))
      = Inr \<lparr>handled = False, response = None\<rparr>) \<and>
   (getSession exChat exResumeFile = Some (Stored exResumeEntry) \<and>
    isBackCommand exEnv exBackText \<and>
    \<not> sessionWriteFails exResumeFile \<and>
    fst (tryProxyMessage exEnv exChat exBackText exResumeFile)
      = Inr \<lparr>handled = True, response = Some (backResponse (ascii ''resume:0a1b2c3d''))\<rparr> \<and>
    getSession exChat (snd (tryProxyMessage exEnv exChat exBackText exResumeFile)) = None \<and>
    fst (tryProxyMessage exEnv exChat exBackText
           (snd (tryProxyMessage exEnv exChat exBackText exResumeFile)))
      = Inr \<lparr>handled = False, response = None\<rparr>)"
proof -
  have s1: "getSession exChat exTmuxFile = Some (Stored exTmuxEntry)"
    by (simp add: getSession_def storeGet_def exTmuxFile_def loadState_def)
  have s2: "getSession exChat exResumeFile = Some (Stored exResumeEntry)"
    by (simp add: getSession_def storeGet_def exResumeFile_def loadState_def)
  have w1: "\<not> sessionWriteFails exTmuxFile"
    by (simp add: exTmuxFile_def)
  have w2: "\<not> sessionWriteFails exResumeFile"
    by (simp add: exResumeFile_def)
  have m1: "(if sessionMode exTmuxEntry = Tmux
             then ascii ''tmux:'' @ templ (tmuxSession exTmuxEntry)
             else ascii ''resume:'' @ templ (map_option (take 8) (resumeId exTmuxEntry)))
            = ascii ''tmux:work''"
    by (simp add: exTmuxEntry_def templ_def ascii_def)
  have m2: "(if sessionMode exResumeEntry = Tmux
             then ascii ''tmux:'' @ templ (tmuxSession exResumeEntry)
             else ascii ''resume:'' @ templ (map_option (take 8) (resumeId exResumeEntry)))
            = ascii ''resume:0a1b2c3d''"
    by (simp add: exResumeEntry_def templ_def ascii_def)
  show ?thesis
    using tryProxyMessage_back_command_detaches
            [OF s1 exNazadText_back w1, where envb = exEnv and textb = "ascii ''hello''"]
          tryProxyMessage_back_command_detaches
            [OF s2 exBackText_back w2, where envb = exEnv and textb = exBackText]
          s1 s2 w1 w2 exNazadText_back exBackText_back exChat_not_inherited
    unfolding m1 m2
    by simp
qed

text \<open>
  C8 as the specification states it fails in two places. A tmux entry is stored for the
  chat id \<open>constructor\<close>: the back command is handled and removes the entry, and a second
  back command is handled again, as a detach from \<open>resume:undefined\<close>. And where the session
  file cannot be written, the back command ends in the exception of the write, with the
  entry still stored.
\<close>

theorem tryProxyMessage_back_command_handled_twice:
  "getSession (ascii ''constructor'') exConstructorFile = Some (Stored exTmuxEntry) \<and>
   isBackCommand exEnv exBackText \<and>
   fst (tryProxyMessage exEnv (ascii ''constructor'') exBackText exConstructorFile)
     = Inr \<lparr>handled = True, response = Some (backResponse (ascii ''tmux:work''))\<rparr> \<and>
   fst (tryProxyMessage exEnv (ascii ''constructor'') exBackText
          (snd (tryProxyMessage exEnv (ascii ''constructor'') exBackText exConstructorFile)))
     = Inr \<lparr>handled = True, response = Some (backResponse (ascii ''resume:undefined''))\<rparr> \<and>
   getSession exChat exReadOnlyFile = Some (Stored exTmuxEntry) \<and>
   tryProxyMessage exEnv exChat exBackText exReadOnlyFile = (Inl WriteFailed, exReadOnlyFile)"
proof -
  have txt1: "ascii ''tmux:'' @ ascii ''work'' = ascii ''tmux:work''"
    by (simp add: ascii_def)
  have txt2: "ascii ''resume:'' @ ascii ''undefined'' = ascii ''resume:undefined''"
    by (simp add: ascii_def)
  have s: "getSession (ascii ''constructor'') exConstructorFile = Some (Stored exTmuxEntry)"
    by (simp add: getSession_def storeGet_def exConstructorFile_def loadState_def)
  have clr: "clearSession (ascii ''constructor'') exConstructorFile
               = Inr (True, \<lparr>sessionStore = Some Map.empty, sessionWriteFails = False\<rparr>)"
    by (simp add: clearSession_def storeGet_def saveState_def exConstructorFile_def
        loadState_def Let_def)
  have first: "tryProxyMessage exEnv (ascii ''constructor'') exBackText exConstructorFile
                 = (Inr \<lparr>handled = True, response = Some (backResponse (ascii ''tmux:work''))\<rparr>,
                    \<lparr>sessionStore = Some Map.empty, sessionWriteFails = False\<rparr>)"
    using exBackText_back
    by (simp add: tryProxyMessage_def s clr valueMode_def valueTmuxSession_def
        exTmuxEntry_def templ_def txt1)
  have inh: "ascii ''constructor'' \<in> set OBJECT_PROTOTYPE_KEYS"
    by (simp add: OBJECT_PROTOTYPE_KEYS_def)
  have s': "getSession (ascii ''constructor'')
              \<lparr>sessionStore = Some Map.empty, sessionWriteFails = False\<rparr> = Some Inherited"
    using inh by (simp add: getSession_def storeGet_def loadState_def)
  have clr': "clearSession (ascii ''constructor'')
                \<lparr>sessionStore = Some Map.empty, sessionWriteFails = False\<rparr>
              = Inr (True, \<lparr>sessionStore = Some Map.empty, sessionWriteFails = False\<rparr>)"
    using inh by (simp add: clearSession_def storeGet_def saveState_def loadState_def Let_def)
  have second: "fst (tryProxyMessage exEnv (ascii ''constructor'') exBackText
                       \<lparr>sessionStore = Some Map.empty, sessionWriteFails = False\<rparr>)
                  = Inr \<lparr>handled = True,
                         response = Some (backResponse (ascii ''resume:undefined''))\<rparr>"
    using exBackText_back
    by (simp add: tryProxyMessage_def s' clr' valueMode_def valueResumeId_def templ_def
        txt2)
  have ro: "getSession exChat exReadOnlyFile = Some (Stored exTmuxEntry)"
    by (simp add: getSession_def storeGet_def exReadOnlyFile_def loadState_def)
  have clrro: "clearSession exChat exReadOnlyFile = Inl WriteFailed"
    by (simp add: clearSession_def storeGet_def saveState_def exReadOnlyFile_def
        loadState_def Let_def)
  have third: "tryProxyMessage exEnv exChat exBackText exReadOnlyFile
                 = (Inl WriteFailed, exReadOnlyFile)"
    using exBackText_back by (simp add: tryProxyMessage_def ro clrro)
  show ?thesis
    using s exBackText_back first second ro third by simp
qed

text \<open>
  C10. The store has an entry for the chat id whose mode-specific fields are missing: mode
  \<open>tmux\<close> without a (non-empty) \<open>tmuxSession\<close>, or mode \<open>resume\<close> without a (non-empty)
  \<open>resumeId\<close> or \<open>cwd\<close>. For every message that is no back command, \<open>tryProxyMessage\<close> answers
  \<open>handled: false\<close> with no response and leaves the store, entry included, as it was.
\<close>

theorem tryProxyMessage_incomplete_entry_falls_through:
  assumes "getSession chatId f = Some (Stored session)"
      and "\<not> isBackCommand env messageText"
      and "(sessionMode session = Tmux \<and> \<not> truthy (tmuxSession session)) \<or>
           (sessionMode session = Resume \<and>
              (\<not> truthy (resumeId session) \<or> \<not> truthy (cwd session)))"
  shows "tryProxyMessage env chatId messageText f
           = (Inr \<lparr>handled = False, response = None\<rparr>, f) \<and>
         getSession chatId (snd (tryProxyMessage env chatId messageText f))
           = Some (Stored session)"
  using assms
  by (auto simp: tryProxyMessage_def Let_def valueMode_def valueTmuxSession_def
      valueResumeId_def valueCwd_def)

theorem tryProxyMessage_incomplete_entry_falls_through_witness:
  "(getSession exChat exTmuxFileNoName = Some (Stored exTmuxEntryNoName) \<and>
    sessionMode exTmuxEntryNoName = Tmux \<and> tmuxSession exTmuxEntryNoName = None \<and>
    \<not> isBackCommand exEnv (ascii ''hello'') \<and>
    tryProxyMessage exEnv exChat (ascii ''hello'') exTmuxFileNoName
      = (Inr \<lparr>handled = False, response = None\<rparr>, exTmuxFileNoName)) \<and>
   (getSession exChat exResumeFileNoCwd = Some (Stored exResumeEntryNoCwd) \<and>
    sessionMode exResumeEntryNoCwd = Resume \<and> cwd exResumeEntryNoCwd = None \<and>
    tryProxyMessage exEnv exChat (ascii ''hello'') exResumeFileNoCwd
      = (Inr \<lparr>handled = False, response = None\<rparr>, exResumeFileNoCwd))"
proof -
  have s1: "getSession exChat exTmuxFileNoName = Some (Stored exTmuxEntryNoName)"
    by (simp add: getSession_def storeGet_def exTmuxFileNoName_def loadState_def)
  have s2: "getSession exChat exResumeFileNoCwd = Some (Stored exResumeEntryNoCwd)"
    by (simp add: getSession_def storeGet_def exResumeFileNoCwd_def loadState_def)
  have nb: "\<not> isBackCommand exEnv (ascii ''hello'')"
    by (simp add: isBackCommand_def exEnv_def lowerBasic_def BACK_COMMANDS_def string_eval)
  have m1: "sessionMode exTmuxEntryNoName = Tmux" "tmuxSession exTmuxEntryNoName = None"
    by (simp_all add: exTmuxEntryNoName_def exTmuxEntry_def)
  have m2: "sessionMode exResumeEntryNoCwd = Resume" "cwd exResumeEntryNoCwd = None"
    by (simp_all add: exResumeEntryNoCwd_def exResumeEntry_def)
  show ?thesis
    using tryProxyMessage_incomplete_entry_falls_through[OF s1 nb]
          tryProxyMessage_incomplete_entry_falls_through[OF s2 nb]
          s1 s2 nb m1 m2
    by simp
qed

section \<open>Extracting the reply\<close>

lemma exPaneAfter_lines:
  "splitLines exPaneAfter =
     [ascii ''Tests:'', SEPARATOR_LINE, ascii ''12 ok'', ascii ''0 bad'', ascii ''Done'',
      ascii ''Next?'']"
  by (simp add: exPaneAfter_def SEPARATOR_LINE_def ascii_def)

lemma exPaneBefore_lines: "splitLines exPaneBefore = [exPaneBefore]"
  by (simp add: exPaneBefore_def ascii_def)

lemma exPane_diverge:
  "findDiverge [exPaneBefore]
     [ascii ''Tests:'', SEPARATOR_LINE, ascii ''12 ok'', ascii ''0 bad'', ascii ''Done'',
      ascii ''Next?''] 0 = Some 0"
  by (simp add: exPaneBefore_def ascii_def)

lemma exPane_keeps_all:
  "filter (keepLine [ascii ''Tests:'', SEPARATOR_LINE, ascii ''12 ok'', ascii ''0 bad'',
                     ascii ''Done'', ascii ''Next?''])
     [ascii ''Tests:'', SEPARATOR_LINE, ascii ''12 ok'', ascii ''0 bad'', ascii ''Done'',
      ascii ''Next?'']
   = [ascii ''Tests:'', SEPARATOR_LINE, ascii ''12 ok'', ascii ''0 bad'', ascii ''Done'',
      ascii ''Next?'']"
  by (simp add: keepLine_def SEPARATOR_LINE_def PROMPT_GLYPH_def BYPASS_LINE_def
      startsWith_def string_eval)

lemma exPaneAfter_trim: "trim exPaneAfter = exPaneAfter"
  by (simp add: exPaneAfter_def SEPARATOR_LINE_def string_eval)

text \<open>
  C9. The specification has no line of the text returned by \<open>extractNewContent\<close> be the
  decorative separator line. The filter keeps every line whose first index among the new
  lines is greater than 0 and less than their number minus 3, whatever the line is. Here
  the pane shows six new lines, the second of them the separator: the text returned is all
  six lines, the separator among them.
\<close>

theorem extractNewContent_keeps_separator_line:
  "extractNewContent exPaneBefore exPaneAfter = exPaneAfter \<and>
   SEPARATOR_LINE \<in> set (splitLines (extractNewContent exPaneBefore exPaneAfter)) \<and>
   includesStr (splitLines (extractNewContent exPaneBefore exPaneAfter) ! 1) SEPARATOR_LINE"
proof -
  have joined:
    "joinLines [ascii ''Tests:'', SEPARATOR_LINE, ascii ''12 ok'', ascii ''0 bad'',
                ascii ''Done'', ascii ''Next?''] = exPaneAfter"
    by (simp add: exPaneAfter_def)
  have nonempty: "exPaneAfter \<noteq> []"
    by (simp add: exPaneAfter_def ascii_def)
  have res: "extractNewContent exPaneBefore exPaneAfter = exPaneAfter"
    unfolding extractNewContent_def Let_def exPaneAfter_lines exPaneBefore_lines exPane_diverge
      option.case drop_0 exPane_keeps_all joined exPaneAfter_trim
    using nonempty by simp
  have inc: "includesStr SEPARATOR_LINE SEPARATOR_LINE"
    by (simp add: SEPARATOR_LINE_def startsWith_def)
  show ?thesis
    unfolding res exPaneAfter_lines using inc by simp
qed

end
